theory Spec2Isabelle
  imports Main "HOL-Library.Sublist"
begin

section \<open>TareaInteligente: resilient execution with retries\<close>

text \<open>
  The repository holds three implementations of one component:
  \<^item> the class (\<^verbatim>\<open>TareaInteligenteClase.js\<close>, lines 1-124), promise chains and private methods;
  \<^item> the object literal (same file, lines 125-257), promise chains and a counter kept in a
    field of the object;
  \<^item> the factory function with \<^verbatim>\<open>async/await\<close> (\<^verbatim>\<open>TareaInteligenteAsync.js\<close>).

  Each is embedded below, function by function, under the source's names (with a suffix
  where two implementations share a name).

  What the embedding fixes:
  \<^item> A promise is modelled by how it settles. The operation \<^verbatim>\<open>ejecutar\<close> is an opaque external
    function; it is given as a function from the number of invocations made so far to the
    way the promise of that invocation settles. Operations whose promise never settles and
    operations that throw before returning a promise are outside the model.
  \<^item> The callback \<^verbatim>\<open>despues\<close> is a function from the result to \<open>None\<close> (it returned) or
    \<open>Some e\<close> (it threw \<open>e\<close>).
  \<^item> Every effect is an event; a run returns the list of its events in the order they
    happen. \<^verbatim>\<open>esperar(ms)\<close> is the event \<open>Esperar ms\<close>: time itself is not modelled.
  \<^item> Numbers of a configuration are integers, \<open>None\<close> is a property left out
    (\<^verbatim>\<open>undefined\<close>). JavaScript values of other types in these fields are outside the model.
  \<^item> A template literal is the list of its parts, so that what a log message contains can
    be read off.
\<close>

subsection \<open>Values\<close>

datatype ('a, 'e) promesa = Resuelta 'a | Rechazada 'e

text \<open>
  What can be thrown: \<^verbatim>\<open>new Error(msg)\<close>, the \<^verbatim>\<open>TypeError\<close> of reading a property of
  \<^verbatim>\<open>undefined\<close>, or a value thrown by the operation or by the callback.
\<close>

datatype 'e error = Error string | TypeError | Lanzado 'e

datatype parte = Txt string | Num nat | Nom string

datatype ('a, 'e) evento =
    Ejecutar "('a, 'e) promesa"
  | ConsoleWarn "parte list" "'e option"
  | Esperar int
  | Despues 'a "'e option"
  | ConsoleError "parte list" "'e error"

type_synonym ('a, 'e) traza = "('a, 'e) evento list"

text \<open>The object \<^verbatim>\<open>configuracion\<close> as the caller writes it.\<close>

record conf_entrada =
  reintentos :: "int option"
  demoraEntreIntentos :: "int option"
  modoSilencioso :: "bool option"

text \<open>The argument of the constructor, of the factory and of \<^verbatim>\<open>configurar\<close>.\<close>

record ('a, 'e) opciones =
  nombre :: "string option"
  configuracion :: "conf_entrada option"
  ejecutar :: "nat \<Rightarrow> ('a, 'e) promesa"
  despues :: "('a \<Rightarrow> 'e option) option"

subsection \<open>JavaScript's \<^verbatim>\<open>||\<close> on the values of the model\<close>

text \<open>
  \<^verbatim>\<open>x || d\<close> is \<open>d\<close> when \<open>x\<close> is falsy and \<open>x\<close> otherwise. Falsy are \<^verbatim>\<open>undefined\<close>, the
  number 0, \<^verbatim>\<open>false\<close> and the empty string; every other number, negative ones too, is
  truthy.
\<close>

definition o_num :: "int option \<Rightarrow> int \<Rightarrow> int" where
  "o_num x d = (case x of None \<Rightarrow> d | Some n \<Rightarrow> if n = 0 then d else n)"

definition o_bool :: "bool option \<Rightarrow> bool \<Rightarrow> bool" where
  "o_bool x d = (case x of None \<Rightarrow> d | Some b \<Rightarrow> if b then b else d)"

definition o_str :: "string option \<Rightarrow> string \<Rightarrow> string" where
  "o_str x d = (case x of None \<Rightarrow> d | Some s \<Rightarrow> if s = [] then d else s)"

definition comilla :: string where
  "comilla = [CHR 0x27]"

text \<open>\<^verbatim>\<open>`Error en la tarea '${nombre}':`\<close>, the message of the error log of all three.\<close>

definition msgError :: "string \<Rightarrow> parte list" where
  "msgError n = [Txt (''Error en la tarea '' @ comilla), Nom n, Txt (comilla @ '':'')]"

definition todosFallaron :: "'e error" where
  "todosFallaron = Error ''Todos los intentos fallaron.''"

subsection \<open>The class\<close>

record conf_clase =
  maxIntentos :: int
  demora :: int
  silencio :: bool

record ('a, 'e) tarea_clase =
  c_nombre :: string
  c_config :: conf_clase
  c_ejecutar :: "nat \<Rightarrow> ('a, 'e) promesa"
  c_despues :: "('a \<Rightarrow> 'e option) option"

text \<open>\<^verbatim>\<open>#prepararConfiguracion(conf)\<close>; \<open>demora\<close> is the field \<^verbatim>\<open>demoraEntreIntentos\<close> of its result.\<close>

definition prepararConfiguracion_clase :: "conf_entrada \<Rightarrow> conf_clase" where
  "prepararConfiguracion_clase conf =
     \<lparr> maxIntentos = o_num (reintentos conf) 3,
       demora = o_num (demoraEntreIntentos conf) 1000,
       silencio = o_bool (modoSilencioso conf) False \<rparr>"

definition conf_vacia :: conf_entrada where
  "conf_vacia = \<lparr> reintentos = None, demoraEntreIntentos = None, modoSilencioso = None \<rparr>"

text \<open>
  The constructor. \<^verbatim>\<open>configuracion || {}\<close>: an object is truthy, \<^verbatim>\<open>undefined\<close> gives the
  empty object.
\<close>

definition constructor_clase :: "('a, 'e) opciones \<Rightarrow> ('a, 'e) tarea_clase" where
  "constructor_clase ops =
     \<lparr> c_nombre = o_str (nombre ops) ''TareaSinNombre'',
       c_config = prepararConfiguracion_clase
                    (case configuracion ops of None \<Rightarrow> conf_vacia | Some c \<Rightarrow> c),
       c_ejecutar = ejecutar ops,
       c_despues = despues ops \<rparr>"

text \<open>\<^verbatim>\<open>console.warn(`Intento ${intentos} fallido:`, error)\<close> unless \<^verbatim>\<open>conf.silencio\<close>.\<close>

definition aviso_clase :: "conf_clase \<Rightarrow> nat \<Rightarrow> 'e \<Rightarrow> ('a, 'e) traza" where
  "aviso_clase conf intentos e =
     (if \<not> silencio conf
      then [ConsoleWarn [Txt ''Intento '', Num intentos, Txt '' fallido:''] (Some e)]
      else [])"

text \<open>
  The closure \<^verbatim>\<open>intentar\<close> of \<^verbatim>\<open>#ejecutarConResiliencia\<close>. \<open>intentos\<close> is the variable the
  closure shares, \<open>k\<close> the number of invocations of the operation so far. The result is the
  way the returned promise settles, the new number of invocations and the events.
\<close>

function intentar ::
  "(nat \<Rightarrow> ('a, 'e) promesa) \<Rightarrow> conf_clase \<Rightarrow> nat \<Rightarrow> nat
     \<Rightarrow> ('a, 'e error) promesa \<times> nat \<times> ('a, 'e) traza" where
  "intentar funcion conf intentos k =
     (case funcion k of
        Resuelta r \<Rightarrow> (Resuelta r, Suc k, [Ejecutar (Resuelta r)])
      | Rechazada e \<Rightarrow>
          (if int (Suc intentos) < maxIntentos conf
           then (case intentar funcion conf (Suc intentos) (Suc k) of
                   (p, k', tr) \<Rightarrow>
                     (p, k', Ejecutar (Rechazada e) # aviso_clase conf (Suc intentos) e
                               @ Esperar (demora conf) # tr))
           else (Rechazada todosFallaron, Suc k,
                 Ejecutar (Rechazada e) # aviso_clase conf (Suc intentos) e)))"
  by pat_completeness auto
termination
  by (relation "measure (\<lambda>(funcion, conf, intentos, k). nat (maxIntentos conf - int intentos))")
     auto

declare intentar.simps [simp del]

definition ejecutarConResiliencia_clase ::
  "(nat \<Rightarrow> ('a, 'e) promesa) \<Rightarrow> conf_clase \<Rightarrow> nat
     \<Rightarrow> ('a, 'e error) promesa \<times> nat \<times> ('a, 'e) traza" where
  "ejecutarConResiliencia_clase funcion conf k = intentar funcion conf 0 k"

text \<open>
  \<^verbatim>\<open>iniciar()\<close>: \<^verbatim>\<open>.then\<close> runs the callback when there is one; \<^verbatim>\<open>.catch\<close> receives the
  rejection of the retries and what the callback throws, logs it and rejects with it.
\<close>

definition iniciar_clase ::
  "('a, 'e) tarea_clase \<Rightarrow> nat \<Rightarrow> ('a, 'e error) promesa \<times> nat \<times> ('a, 'e) traza" where
  "iniciar_clase this k =
     (case ejecutarConResiliencia_clase (c_ejecutar this) (c_config this) k of
        (Resuelta resultado, k', tr) \<Rightarrow>
          (case c_despues this of
             None \<Rightarrow> (Resuelta resultado, k', tr)
           | Some f \<Rightarrow>
               (case f resultado of
                  None \<Rightarrow> (Resuelta resultado, k', tr @ [Despues resultado None])
                | Some e \<Rightarrow>
                    (Rechazada (Lanzado e), k',
                     tr @ [Despues resultado (Some e),
                           ConsoleError (msgError (c_nombre this)) (Lanzado e)])))
      | (Rechazada error, k', tr) \<Rightarrow>
          (Rechazada error, k', tr @ [ConsoleError (msgError (c_nombre this)) error]))"

subsection \<open>The factory function with \<^verbatim>\<open>async/await\<close>\<close>

text \<open>
  \<^verbatim>\<open>prepararConfiguracion(config)\<close> copies the object (\<^verbatim>\<open>...config\<close>) and adds two
  fields. The delay has no default here: it gets one where it is used.
\<close>

record conf_async = conf_entrada +
  a_maxIntentos :: int
  a_silencio :: bool

definition prepararConfiguracion_async :: "conf_entrada \<Rightarrow> conf_async" where
  "prepararConfiguracion_async config =
     \<lparr> reintentos = reintentos config,
       demoraEntreIntentos = demoraEntreIntentos config,
       modoSilencioso = modoSilencioso config,
       a_maxIntentos = o_num (reintentos config) 3,
       a_silencio = o_bool (modoSilencioso config) False \<rparr>"

text \<open>\<^verbatim>\<open>if (!config.silencio) console.warn(`Intento ${intentos} fallido.`)\<close>\<close>

definition aviso_async :: "conf_async \<Rightarrow> nat \<Rightarrow> ('a, 'e) traza" where
  "aviso_async config intentos =
     (if \<not> a_silencio config
      then [ConsoleWarn [Txt ''Intento '', Num intentos, Txt '' fallido.''] None]
      else [])"

text \<open>
  The \<^verbatim>\<open>while\<close> loop of \<^verbatim>\<open>ejecutarConResiliencia\<close>, entered with the current value of
  \<open>intentos\<close>. The \<^verbatim>\<open>catch\<close> block waits after every failure; the \<^verbatim>\<open>throw\<close> follows the
  loop.
\<close>

function mientras ::
  "(nat \<Rightarrow> ('a, 'e) promesa) \<Rightarrow> conf_async \<Rightarrow> nat \<Rightarrow> nat
     \<Rightarrow> ('a, 'e error) promesa \<times> nat \<times> ('a, 'e) traza" where
  "mientras funcion config intentos k =
     (if int intentos < a_maxIntentos config
      then (case funcion k of
              Resuelta r \<Rightarrow> (Resuelta r, Suc k, [Ejecutar (Resuelta r)])
            | Rechazada e \<Rightarrow>
                (case mientras funcion config (Suc intentos) (Suc k) of
                   (p, k', tr) \<Rightarrow>
                     (p, k', Ejecutar (Rechazada e) # aviso_async config (Suc intentos)
                               @ Esperar (o_num (demoraEntreIntentos config) 1000) # tr)))
      else (Rechazada todosFallaron, k, []))"
  by pat_completeness auto
termination
  by (relation "measure (\<lambda>(funcion, config, intentos, k). nat (a_maxIntentos config - int intentos))")
     auto

declare mientras.simps [simp del]

definition ejecutarConResiliencia_async ::
  "(nat \<Rightarrow> ('a, 'e) promesa) \<Rightarrow> conf_async \<Rightarrow> nat
     \<Rightarrow> ('a, 'e error) promesa \<times> nat \<times> ('a, 'e) traza" where
  "ejecutarConResiliencia_async funcion config k = mientras funcion config 0 k"

text \<open>
  \<^verbatim>\<open>logError(error, nombre)\<close>; the factory does not default the name, and a template
  literal prints \<^verbatim>\<open>undefined\<close> as that word.
\<close>

definition logError :: "'e error \<Rightarrow> string option \<Rightarrow> ('a, 'e) evento" where
  "logError error nombreTarea =
     ConsoleError (msgError (case nombreTarea of None \<Rightarrow> ''undefined'' | Some s \<Rightarrow> s)) error"

text \<open>
  \<^verbatim>\<open>iniciar()\<close> of the object the factory returns. It has no \<^verbatim>\<open>return\<close>, so its promise
  resolves with \<^verbatim>\<open>undefined\<close> (the unit value) whenever the body ends; the \<^verbatim>\<open>try\<close> block
  holds the retries and the callback, and the \<^verbatim>\<open>catch\<close> block only logs.
  \<^verbatim>\<open>prepararConfiguracion\<close> stands before the \<^verbatim>\<open>try\<close>: with no \<^verbatim>\<open>configuracion\<close> it
  reads a property of \<^verbatim>\<open>undefined\<close>, and the promise is rejected with the \<^verbatim>\<open>TypeError\<close>.
\<close>

definition iniciar_async ::
  "('a, 'e) opciones \<Rightarrow> nat \<Rightarrow> (unit, 'e error) promesa \<times> nat \<times> ('a, 'e) traza" where
  "iniciar_async ops k =
     (case configuracion ops of
        None \<Rightarrow> (Rechazada TypeError, k, [])
      | Some c \<Rightarrow>
          (case ejecutarConResiliencia_async (ejecutar ops) (prepararConfiguracion_async c) k of
             (Resuelta resultado, k', tr) \<Rightarrow>
               (case despues ops of
                  None \<Rightarrow> (Resuelta (), k', tr)
                | Some f \<Rightarrow>
                    (case f resultado of
                       None \<Rightarrow> (Resuelta (), k', tr @ [Despues resultado None])
                     | Some e \<Rightarrow>
                         (Resuelta (), k',
                          tr @ [Despues resultado (Some e), logError (Lanzado e) (nombre ops)])))
           | (Rechazada error, k', tr) \<Rightarrow>
               (Resuelta (), k', tr @ [logError error (nombre ops)])))"

subsection \<open>The object literal\<close>

text \<open>
  The object after \<^verbatim>\<open>configurar\<close> has run: its fields hold values. The object as it is
  declared (\<^verbatim>\<open>ejecutar: null\<close>) is outside the model.
\<close>

record conf_literal =
  l_reintentos :: int
  l_demoraEntreIntentos :: int
  l_modoSilencioso :: bool

record ('a, 'e) tarea_literal =
  l_nombre :: string
  l_configuracion :: conf_literal
  l_ejecutar :: "nat \<Rightarrow> ('a, 'e) promesa"
  l_despues :: "'a \<Rightarrow> 'e option"
  intentosRealizados :: nat

text \<open>
  \<^verbatim>\<open>configurar(config)\<close>. It does not touch \<^verbatim>\<open>_intentosRealizados\<close>, whose current value
  is the first argument. \<^verbatim>\<open>config.configuracion.reintentos\<close> throws a \<^verbatim>\<open>TypeError\<close> when
  \<^verbatim>\<open>config.configuracion\<close> is left out. A callback left out becomes the function that
  does nothing.
\<close>

definition configurar :: "nat \<Rightarrow> ('a, 'e) opciones \<Rightarrow> 'e error + ('a, 'e) tarea_literal" where
  "configurar n config =
     (case configuracion config of
        None \<Rightarrow> Inl TypeError
      | Some c \<Rightarrow>
          Inr \<lparr> l_nombre = o_str (nombre config) ''TareaSinNombre'',
                l_configuracion =
                  \<lparr> l_reintentos = o_num (reintentos c) 3,
                    l_demoraEntreIntentos = o_num (demoraEntreIntentos c) 1000,
                    l_modoSilencioso = o_bool (modoSilencioso c) False \<rparr>,
                l_ejecutar = ejecutar config,
                l_despues = (case despues config of None \<Rightarrow> (\<lambda>_. None) | Some f \<Rightarrow> f),
                intentosRealizados = n \<rparr>)"

text \<open>\<^verbatim>\<open>console.warn(`Intento ${self._intentosRealizados} fallido en '${self.nombre}'.`)\<close>\<close>

definition aviso_literal :: "('a, 'e) tarea_literal \<Rightarrow> ('a, 'e) traza" where
  "aviso_literal self =
     (if \<not> l_modoSilencioso (l_configuracion self)
      then [ConsoleWarn [Txt ''Intento '', Num (intentosRealizados self),
                         Txt ('' fallido en '' @ comilla), Nom (l_nombre self),
                         Txt (comilla @ ''.'')] None]
      else [])"

text \<open>
  \<^verbatim>\<open>_intentarEjecucion()\<close>: the counter is the field of the object, so the object is
  passed in and returned.
\<close>

function intentarEjecucion ::
  "('a, 'e) tarea_literal \<Rightarrow> nat
     \<Rightarrow> ('a, 'e error) promesa \<times> ('a, 'e) tarea_literal \<times> nat \<times> ('a, 'e) traza" where
  "intentarEjecucion self k =
     (case l_ejecutar self k of
        Resuelta r \<Rightarrow> (Resuelta r, self, Suc k, [Ejecutar (Resuelta r)])
      | Rechazada e \<Rightarrow>
          (let self' = self\<lparr> intentosRealizados := Suc (intentosRealizados self) \<rparr> in
           if int (intentosRealizados self') < l_reintentos (l_configuracion self')
           then (case intentarEjecucion self' (Suc k) of
                   (p, self'', k', tr) \<Rightarrow>
                     (p, self'', k',
                      Ejecutar (Rechazada e) # aviso_literal self'
                        @ Esperar (l_demoraEntreIntentos (l_configuracion self')) # tr))
           else (Rechazada todosFallaron, self', Suc k,
                 Ejecutar (Rechazada e) # aviso_literal self')))"
  by pat_completeness auto
termination
  by (relation "measure (\<lambda>(self, k).
        nat (l_reintentos (l_configuracion self) - int (intentosRealizados self)))")
     auto

declare intentarEjecucion.simps [simp del]

text \<open>\<^verbatim>\<open>iniciar()\<close>: the counter is set to 0, then as in the class, the callback always there.\<close>

definition iniciar_literal ::
  "('a, 'e) tarea_literal \<Rightarrow> nat
     \<Rightarrow> ('a, 'e error) promesa \<times> ('a, 'e) tarea_literal \<times> nat \<times> ('a, 'e) traza" where
  "iniciar_literal this k =
     (case intentarEjecucion (this\<lparr> intentosRealizados := 0 \<rparr>) k of
        (Resuelta resultado, self, k', tr) \<Rightarrow>
          (case l_despues self resultado of
             None \<Rightarrow> (Resuelta resultado, self, k', tr @ [Despues resultado None])
           | Some e \<Rightarrow>
               (Rechazada (Lanzado e), self, k',
                tr @ [Despues resultado (Some e),
                      ConsoleError (msgError (l_nombre self)) (Lanzado e)]))
      | (Rechazada error, self, k', tr) \<Rightarrow>
          (Rechazada error, self, k', tr @ [ConsoleError (msgError (l_nombre self)) error]))"

subsection \<open>Reading a run\<close>

text \<open>The schedule of a run: invocations of the operation and waits, nothing else.\<close>

datatype paso = Llamada | Pausa int

fun pasos :: "('a, 'e) traza \<Rightarrow> paso list" where
  "pasos [] = []"
| "pasos (Ejecutar p # tr) = Llamada # pasos tr"
| "pasos (Esperar ms # tr) = Pausa ms # pasos tr"
| "pasos (ev # tr) = pasos tr"

text \<open>Invocations of the operation, and those whose promise was rejected.\<close>

fun llamadas :: "('a, 'e) traza \<Rightarrow> nat" where
  "llamadas [] = 0"
| "llamadas (Ejecutar p # tr) = Suc (llamadas tr)"
| "llamadas (ev # tr) = llamadas tr"

fun fallos :: "('a, 'e) traza \<Rightarrow> nat" where
  "fallos [] = 0"
| "fallos (Ejecutar (Rechazada e) # tr) = Suc (fallos tr)"
| "fallos (ev # tr) = fallos tr"

text \<open>The waits, in order.\<close>

fun esperas :: "('a, 'e) traza \<Rightarrow> int list" where
  "esperas [] = []"
| "esperas (Esperar ms # tr) = ms # esperas tr"
| "esperas (ev # tr) = esperas tr"

text \<open>The numbers a message holds, and those of each warning, in order.\<close>

fun numeros :: "parte list \<Rightarrow> nat list" where
  "numeros [] = []"
| "numeros (Num n # ps) = n # numeros ps"
| "numeros (p # ps) = numeros ps"

fun avisos :: "('a, 'e) traza \<Rightarrow> nat list list" where
  "avisos [] = []"
| "avisos (ConsoleWarn ps x # tr) = numeros ps # avisos tr"
| "avisos (ev # tr) = avisos tr"

text \<open>The error logs (message and value), and the arguments the callback was called with.\<close>

fun erroresLog :: "('a, 'e) traza \<Rightarrow> (parte list \<times> 'e error) list" where
  "erroresLog [] = []"
| "erroresLog (ConsoleError ps x # tr) = (ps, x) # erroresLog tr"
| "erroresLog (ev # tr) = erroresLog tr"

fun retrollamadas :: "('a, 'e) traza \<Rightarrow> 'a list" where
  "retrollamadas [] = []"
| "retrollamadas (Despues r x # tr) = r # retrollamadas tr"
| "retrollamadas (ev # tr) = retrollamadas tr"

text \<open>The schedule the specification describes for \<open>n\<close> attempts.\<close>

definition entreIntentos :: "nat \<Rightarrow> int \<Rightarrow> paso list" where
  "entreIntentos n ms = Llamada # concat (replicate (n - 1) [Pausa ms, Llamada])"

text \<open>An operation that is rejected at every invocation.\<close>

definition siempreFalla :: "(nat \<Rightarrow> ('a, 'e) promesa) \<Rightarrow> bool" where
  "siempreFalla funcion = (\<forall>j. \<exists>e. funcion j = Rechazada e)"

text \<open>
  The number of invocations the class and the object literal make when every one of them
  fails, their counter standing at \<open>i\<close> and the limit being \<open>n\<close>: the first invocation
  is made whatever the limit.
\<close>

definition quedan :: "int \<Rightarrow> nat \<Rightarrow> nat" where
  "quedan n i = (if int (Suc i) < n then nat n - i else 1)"

text \<open>The name as the log of the factory function prints it.\<close>

definition nombre_async :: "('a, 'e) opciones \<Rightarrow> string" where
  "nombre_async ops = (case nombre ops of None \<Rightarrow> ''undefined'' | Some s \<Rightarrow> s)"

subsection \<open>Examples\<close>

text \<open>The configuration of the example of use in the sources, and one with a single attempt.\<close>

definition conf_ejemplo :: conf_entrada where
  "conf_ejemplo = \<lparr> reintentos = Some 3, demoraEntreIntentos = Some 1500,
                     modoSilencioso = Some False \<rparr>"

definition conf_un_intento :: conf_entrada where
  "conf_un_intento = \<lparr> reintentos = Some 1, demoraEntreIntentos = None, modoSilencioso = None \<rparr>"

text \<open>
  An operation that is rejected at every invocation (with the number of the invocation as
  the error), under a given configuration and with no callback; and the object literal
  that \<^verbatim>\<open>configurar\<close> makes of it under the example configuration.
\<close>

definition ops_rechaza :: "conf_entrada \<Rightarrow> (int, nat) opciones" where
  "ops_rechaza c = \<lparr> nombre = Some ''Cargar'', configuracion = Some c,
                      ejecutar = (\<lambda>j. Rechazada j), despues = None \<rparr>"

definition literal_ejemplo :: "(int, nat) tarea_literal" where
  "literal_ejemplo =
     \<lparr> l_nombre = ''Cargar'',
       l_configuracion = \<lparr> l_reintentos = 3, l_demoraEntreIntentos = 1500,
                           l_modoSilencioso = False \<rparr>,
       l_ejecutar = (\<lambda>j. Rechazada j), l_despues = (\<lambda>r. None), intentosRealizados = 0 \<rparr>"

text \<open>
  An operation that succeeds at its second invocation, under the example configuration,
  with the callback given.
\<close>

definition ops_segundo :: "(int \<Rightarrow> nat option) option \<Rightarrow> (int, nat) opciones" where
  "ops_segundo d = \<lparr> nombre = Some ''Cargar'', configuracion = Some conf_ejemplo,
                      ejecutar = (\<lambda>j. if j = 1 then Resuelta 42 else Rechazada j),
                      despues = d \<rparr>"

text \<open>A silent configuration with two attempts.\<close>

definition conf_silencio :: conf_entrada where
  "conf_silencio = \<lparr> reintentos = Some 2, demoraEntreIntentos = None, modoSilencioso = Some True \<rparr>"

section \<open>Properties\<close>

subsection \<open>Reading a trace piece by piece\<close>

lemma pasos_append: "pasos (xs @ ys) = pasos xs @ pasos ys"
  by (induction xs rule: pasos.induct) simp_all

lemma llamadas_append: "llamadas (xs @ ys) = llamadas xs + llamadas ys"
  by (induction xs rule: llamadas.induct) simp_all

lemma fallos_append: "fallos (xs @ ys) = fallos xs + fallos ys"
  by (induction xs rule: fallos.induct) simp_all

lemma esperas_append: "esperas (xs @ ys) = esperas xs @ esperas ys"
  by (induction xs rule: esperas.induct) simp_all

lemma avisos_append: "avisos (xs @ ys) = avisos xs @ avisos ys"
  by (induction xs rule: avisos.induct) simp_all

lemma erroresLog_append: "erroresLog (xs @ ys) = erroresLog xs @ erroresLog ys"
  by (induction xs rule: erroresLog.induct) simp_all

lemma retrollamadas_append: "retrollamadas (xs @ ys) = retrollamadas xs @ retrollamadas ys"
  by (induction xs rule: retrollamadas.induct) simp_all

lemmas lecturas_append =
  pasos_append llamadas_append fallos_append esperas_append avisos_append
  erroresLog_append retrollamadas_append

subsection \<open>The retries of the class\<close>

lemma aviso_clase_lecturas:
  "pasos (aviso_clase conf n e) = []"
  "llamadas (aviso_clase conf n e) = 0"
  "fallos (aviso_clase conf n e) = 0"
  "esperas (aviso_clase conf n e) = []"
  "erroresLog (aviso_clase conf n e) = []"
  "retrollamadas (aviso_clase conf n e) = []"
  "avisos (aviso_clase conf n e) = (if silencio conf then [] else [[n]])"
  by (simp_all add: aviso_clase_def)

lemma entreIntentos_Suc:
  "0 < n \<Longrightarrow> Llamada # Pausa ms # entreIntentos n ms = entreIntentos (Suc n) ms"
  by (cases n) (simp_all add: entreIntentos_def)


lemma quedan_pos: "0 < quedan n i"
  unfolding quedan_def by (cases "int (Suc i) < n") auto

lemma quedan_Suc: "int (Suc i) < n \<Longrightarrow> quedan n i = Suc (quedan n (Suc i))"
  by (auto simp: quedan_def)

lemma quedan_fin: "\<not> int (Suc i) < n \<Longrightarrow> quedan n i = 1"
  by (simp add: quedan_def)

lemma siempreFallaD: "siempreFalla funcion \<Longrightarrow> \<exists>e. funcion k = Rechazada e"
  by (simp add: siempreFalla_def)

lemma intentar_siempreFalla:
  assumes "siempreFalla funcion" and "intentar funcion conf i k = (p, k', tr)"
  shows "p = Rechazada todosFallaron \<and> k' = k + quedan (maxIntentos conf) i
          \<and> pasos tr = entreIntentos (quedan (maxIntentos conf) i) (demora conf)
          \<and> llamadas tr = quedan (maxIntentos conf) i
          \<and> fallos tr = quedan (maxIntentos conf) i"
  using assms
proof (induction funcion conf i k arbitrary: p k' tr rule: intentar.induct)
  case (1 funcion conf intentos k)
  from siempreFallaD [OF "1.prems"(1)] obtain e where e: "funcion k = Rechazada e" ..
  show ?case
  proof (cases "int (Suc intentos) < maxIntentos conf")
    case True
    obtain p1 k1 tr1 where r: "intentar funcion conf (Suc intentos) (Suc k) = (p1, k1, tr1)"
      by (cases "intentar funcion conf (Suc intentos) (Suc k)") auto
    from "1.IH" [OF e True "1.prems"(1) r]
    have ih: "p1 = Rechazada todosFallaron" "k1 = Suc k + quedan (maxIntentos conf) (Suc intentos)"
      "pasos tr1 = entreIntentos (quedan (maxIntentos conf) (Suc intentos)) (demora conf)"
      "llamadas tr1 = quedan (maxIntentos conf) (Suc intentos)"
      "fallos tr1 = quedan (maxIntentos conf) (Suc intentos)"
      by simp_all
    from "1.prems"(2) e True r
    have "p = p1" "k' = k1"
      "tr = Ejecutar (Rechazada e) # aviso_clase conf (Suc intentos) e @ Esperar (demora conf) # tr1"
      by (simp_all add: intentar.simps [of funcion conf intentos k])
    with ih show ?thesis
      by (simp add: lecturas_append aviso_clase_lecturas quedan_Suc [OF True]
          entreIntentos_Suc [OF quedan_pos])
  next
    case False
    from "1.prems"(2) e False
    have "p = Rechazada todosFallaron" "k' = Suc k"
      "tr = Ejecutar (Rechazada e) # aviso_clase conf (Suc intentos) e"
      by (simp_all add: intentar.simps [of funcion conf intentos k])
    then show ?thesis
      by (simp add: lecturas_append aviso_clase_lecturas quedan_fin [OF False] entreIntentos_def)
  qed
qed


lemma avisos_upt: "[n] # map (\<lambda>n. [n]) [Suc n..<Suc n + m] = map (\<lambda>n. [n]) [n..<n + Suc m]"
  by (simp add: upt_rec [of n])

lemma intentar_general:
  assumes "intentar funcion conf i k = (p, k', tr)"
  shows "k' = k + llamadas tr \<and> erroresLog tr = [] \<and> retrollamadas tr = []
          \<and> avisos tr = (if silencio conf then [] else map (\<lambda>n. [n]) [Suc i..<Suc i + fallos tr])
          \<and> esperas tr = replicate (llamadas tr - 1) (demora conf)
          \<and> 0 < llamadas tr
          \<and> (case p of
                Rechazada x \<Rightarrow> x = todosFallaron \<and> fallos tr = llamadas tr
              | Resuelta r \<Rightarrow> llamadas tr = Suc (fallos tr) \<and> funcion (k + fallos tr) = Resuelta r)"
  using assms
proof (induction funcion conf i k arbitrary: p k' tr rule: intentar.induct)
  case (1 funcion conf intentos k)
  show ?case
  proof (cases "funcion k")
    case (Resuelta r)
    with "1.prems" have "p = Resuelta r" "k' = Suc k" "tr = [Ejecutar (Resuelta r)]"
      by (simp_all add: intentar.simps [of funcion conf intentos k])
    with Resuelta show ?thesis by simp
  next
    case (Rechazada e)
    show ?thesis
    proof (cases "int (Suc intentos) < maxIntentos conf")
      case True
      obtain p1 k1 tr1 where r: "intentar funcion conf (Suc intentos) (Suc k) = (p1, k1, tr1)"
        by (cases "intentar funcion conf (Suc intentos) (Suc k)") auto
      note ih = "1.IH" [OF Rechazada True r]
      from "1.prems" Rechazada True r
      have eq: "p = p1" "k' = k1"
        "tr = Ejecutar (Rechazada e) # aviso_clase conf (Suc intentos) e @ Esperar (demora conf) # tr1"
        by (simp_all add: intentar.simps [of funcion conf intentos k])
      from ih have pos: "0 < llamadas tr1" by simp
      then have rep: "demora conf # replicate (llamadas tr1 - 1) (demora conf)
                      = replicate (llamadas tr1) (demora conf)"
        by (cases "llamadas tr1") simp_all
      from ih have av: "avisos tr1 = (if silencio conf then []
                          else map (\<lambda>n. [n]) [Suc (Suc intentos)..<Suc (Suc intentos) + fallos tr1])"
        by simp
      have c1: "k' = k + llamadas tr"
        using ih eq by (simp add: lecturas_append aviso_clase_lecturas)
      have c2: "erroresLog tr = [] \<and> retrollamadas tr = []"
        using ih eq by (simp add: lecturas_append aviso_clase_lecturas)
      have f: "fallos tr = Suc (fallos tr1)" and l: "llamadas tr = Suc (llamadas tr1)"
        using eq by (simp_all add: lecturas_append aviso_clase_lecturas)
      have c3: "avisos tr = (if silencio conf then []
                  else map (\<lambda>n. [n]) [Suc intentos..<Suc intentos + fallos tr])"
        using av eq(3) avisos_upt [of "Suc intentos" "fallos tr1"]
        by (simp add: lecturas_append aviso_clase_lecturas f del: upt_Suc)
      have c4: "esperas tr = replicate (llamadas tr - 1) (demora conf)"
        using ih eq(3) rep by (simp add: lecturas_append aviso_clase_lecturas)
      have c5: "(case p of
                Rechazada x \<Rightarrow> x = todosFallaron \<and> fallos tr = llamadas tr
              | Resuelta r \<Rightarrow> llamadas tr = Suc (fallos tr) \<and> funcion (k + fallos tr) = Resuelta r)"
        using ih eq(1) f l by (cases p1) simp_all
      from c1 c2 c3 c4 c5 l show ?thesis by simp
    next
      case False
      from "1.prems" Rechazada False
      have "p = Rechazada todosFallaron" "k' = Suc k"
        "tr = Ejecutar (Rechazada e) # aviso_clase conf (Suc intentos) e"
        by (simp_all add: intentar.simps [of funcion conf intentos k])
      then show ?thesis
        by (simp add: lecturas_append aviso_clase_lecturas)
    qed
  qed
qed

lemma intentar_exito:
  assumes "\<forall>l<j. \<exists>e. funcion (k + l) = Rechazada e" and "funcion (k + j) = Resuelta r"
    and "j = 0 \<or> int (i + j) < maxIntentos conf"
    and "intentar funcion conf i k = (p, k', tr)"
  shows "p = Resuelta r \<and> k' = k + Suc j \<and> pasos tr = entreIntentos (Suc j) (demora conf)
          \<and> llamadas tr = Suc j \<and> fallos tr = j"
  using assms
proof (induction j arbitrary: i k p k' tr)
  case 0
  then show ?case
    by (auto simp: intentar.simps [of funcion conf i k] entreIntentos_def)
next
  case (Suc j)
  from Suc.prems(1) obtain e where e: "funcion k = Rechazada e"
    by (metis add.right_neutral zero_less_Suc)
  from Suc.prems(3) have lt: "int (Suc i) < maxIntentos conf" by simp
  obtain p1 k1 tr1 where r: "intentar funcion conf (Suc i) (Suc k) = (p1, k1, tr1)"
    by (cases "intentar funcion conf (Suc i) (Suc k)") auto
  have a: "\<forall>l<j. \<exists>e. funcion (Suc k + l) = Rechazada e"
    using Suc.prems(1) by (metis Suc_less_eq add_Suc_right add_Suc)
  have b: "funcion (Suc k + j) = Resuelta r"
    using Suc.prems(2) by simp
  have c: "j = 0 \<or> int (Suc i + j) < maxIntentos conf"
    using Suc.prems(3) by simp
  note ih = Suc.IH [OF a b c r]
  from Suc.prems(4) e lt r
  have eq: "p = p1" "k' = k1"
    "tr = Ejecutar (Rechazada e) # aviso_clase conf (Suc i) e @ Esperar (demora conf) # tr1"
    by (simp_all add: intentar.simps [of funcion conf i k])
  from ih eq show ?case
    by (simp add: lecturas_append aviso_clase_lecturas entreIntentos_Suc [of "Suc j", simplified])
qed

subsection \<open>The loop of the factory function\<close>

lemma aviso_async_lecturas:
  "pasos (aviso_async config n :: ('a, 'e) traza) = []"
  "llamadas (aviso_async config n :: ('a, 'e) traza) = 0"
  "fallos (aviso_async config n :: ('a, 'e) traza) = 0"
  "esperas (aviso_async config n :: ('a, 'e) traza) = []"
  "erroresLog (aviso_async config n :: ('a, 'e) traza) = []"
  "retrollamadas (aviso_async config n :: ('a, 'e) traza) = []"
  "avisos (aviso_async config n :: ('a, 'e) traza) = (if a_silencio config then [] else [[n]])"
  by (simp_all add: aviso_async_def)

lemma mientras_general:
  assumes "mientras funcion config i k = (p, k', tr)"
  shows "k' = k + llamadas tr \<and> erroresLog tr = [] \<and> retrollamadas tr = []
          \<and> avisos tr = (if a_silencio config then []
                          else map (\<lambda>n. [n]) [Suc i..<Suc i + fallos tr])
          \<and> esperas tr = replicate (fallos tr) (o_num (demoraEntreIntentos config) 1000)
          \<and> (case p of
                Rechazada x \<Rightarrow> x = todosFallaron \<and> fallos tr = llamadas tr
              | Resuelta r \<Rightarrow> llamadas tr = Suc (fallos tr) \<and> funcion (k + fallos tr) = Resuelta r)"
  using assms
proof (induction funcion config i k arbitrary: p k' tr rule: mientras.induct)
  case (1 funcion config intentos k)
  show ?case
  proof (cases "int intentos < a_maxIntentos config")
    case False
    with "1.prems" have "p = Rechazada todosFallaron" "k' = k" "tr = []"
      by (simp_all add: mientras.simps [of funcion config intentos k])
    then show ?thesis by simp
  next
    case True
    show ?thesis
    proof (cases "funcion k")
      case (Resuelta r)
      with "1.prems" True have "p = Resuelta r" "k' = Suc k" "tr = [Ejecutar (Resuelta r)]"
        by (simp_all add: mientras.simps [of funcion config intentos k])
      with Resuelta show ?thesis by simp
    next
      case (Rechazada e)
      obtain p1 k1 tr1 where r: "mientras funcion config (Suc intentos) (Suc k) = (p1, k1, tr1)"
        by (cases "mientras funcion config (Suc intentos) (Suc k)") auto
      note ih = "1.IH" [OF True Rechazada r]
      from "1.prems" Rechazada True r
      have eq: "p = p1" "k' = k1"
        "tr = Ejecutar (Rechazada e) # aviso_async config (Suc intentos)
                @ Esperar (o_num (demoraEntreIntentos config) 1000) # tr1"
        by (simp_all add: mientras.simps [of funcion config intentos k])
      from ih have av: "avisos tr1 = (if a_silencio config then []
                          else map (\<lambda>n. [n]) [Suc (Suc intentos)..<Suc (Suc intentos) + fallos tr1])"
        by simp
      have c1: "k' = k + llamadas tr"
        using ih eq by (simp add: lecturas_append aviso_async_lecturas)
      have c2: "erroresLog tr = [] \<and> retrollamadas tr = []"
        using ih eq by (simp add: lecturas_append aviso_async_lecturas)
      have f: "fallos tr = Suc (fallos tr1)" and l: "llamadas tr = Suc (llamadas tr1)"
        using eq by (simp_all add: lecturas_append aviso_async_lecturas)
      have c3: "avisos tr = (if a_silencio config then []
                  else map (\<lambda>n. [n]) [Suc intentos..<Suc intentos + fallos tr])"
        using av eq(3) avisos_upt [of "Suc intentos" "fallos tr1"]
        by (simp add: lecturas_append aviso_async_lecturas f del: upt_Suc)
      have c4: "esperas tr = replicate (fallos tr) (o_num (demoraEntreIntentos config) 1000)"
        using ih eq(3) by (simp add: lecturas_append aviso_async_lecturas)
      have c5: "(case p of
                Rechazada x \<Rightarrow> x = todosFallaron \<and> fallos tr = llamadas tr
              | Resuelta r \<Rightarrow> llamadas tr = Suc (fallos tr) \<and> funcion (k + fallos tr) = Resuelta r)"
        using ih eq(1) f l by (cases p1) simp_all
      from c1 c2 c3 c4 c5 show ?thesis by simp
    qed
  qed
qed

lemma mientras_siempreFalla:
  assumes "siempreFalla funcion" and "mientras funcion config i k = (p, k', tr)"
  shows "p = Rechazada todosFallaron \<and> k' = k + nat (a_maxIntentos config - int i)
          \<and> pasos tr = concat (replicate (nat (a_maxIntentos config - int i))
                                  [Llamada, Pausa (o_num (demoraEntreIntentos config) 1000)])
          \<and> llamadas tr = nat (a_maxIntentos config - int i)
          \<and> fallos tr = nat (a_maxIntentos config - int i)"
  using assms
proof (induction funcion config i k arbitrary: p k' tr rule: mientras.induct)
  case (1 funcion config intentos k)
  from siempreFallaD [OF "1.prems"(1)] obtain e where e: "funcion k = Rechazada e" ..
  show ?case
  proof (cases "int intentos < a_maxIntentos config")
    case True
    obtain p1 k1 tr1 where r: "mientras funcion config (Suc intentos) (Suc k) = (p1, k1, tr1)"
      by (cases "mientras funcion config (Suc intentos) (Suc k)") auto
    note ih = "1.IH" [OF True e "1.prems"(1) r]
    from "1.prems"(2) e True r
    have eq: "p = p1" "k' = k1"
      "tr = Ejecutar (Rechazada e) # aviso_async config (Suc intentos)
              @ Esperar (o_num (demoraEntreIntentos config) 1000) # tr1"
      by (simp_all add: mientras.simps [of funcion config intentos k])
    from True have m: "nat (a_maxIntentos config - int intentos)
                       = Suc (nat (a_maxIntentos config - int (Suc intentos)))"
      by simp
    from ih eq show ?thesis
      unfolding m by (simp add: lecturas_append aviso_async_lecturas)
  next
    case False
    from "1.prems"(2) False
    have "p = Rechazada todosFallaron" "k' = k" "tr = []"
      by (simp_all add: mientras.simps [of funcion config intentos k])
    with False show ?thesis by simp
  qed
qed

lemma pasos_async_entreIntentos:
  "0 < m \<Longrightarrow> concat (replicate m [Llamada, Pausa ms]) = entreIntentos m ms @ [Pausa ms]"
proof (induction m)
  case 0
  then show ?case by simp
next
  case (Suc m)
  show ?case
  proof (cases m)
    case 0
    then show ?thesis by (simp add: entreIntentos_def)
  next
    case (Suc m')
    with Suc.IH have "concat (replicate m [Llamada, Pausa ms]) = entreIntentos m ms @ [Pausa ms]"
      by simp
    with Suc show ?thesis by (simp add: entreIntentos_def)
  qed
qed

lemma mientras_exito:
  assumes "\<forall>l<j. \<exists>e. funcion (k + l) = Rechazada e" and "funcion (k + j) = Resuelta r"
    and "int (i + j) < a_maxIntentos config"
    and "mientras funcion config i k = (p, k', tr)"
  shows "p = Resuelta r \<and> k' = k + Suc j
          \<and> pasos tr = entreIntentos (Suc j) (o_num (demoraEntreIntentos config) 1000)
          \<and> llamadas tr = Suc j \<and> fallos tr = j"
  using assms
proof (induction j arbitrary: i k p k' tr)
  case 0
  then show ?case
    by (auto simp: mientras.simps [of funcion config i k] entreIntentos_def)
next
  case (Suc j)
  from Suc.prems(1) obtain e where e: "funcion k = Rechazada e"
    by (metis add.right_neutral zero_less_Suc)
  from Suc.prems(3) have lt: "int i < a_maxIntentos config" by simp
  obtain p1 k1 tr1 where r: "mientras funcion config (Suc i) (Suc k) = (p1, k1, tr1)"
    by (cases "mientras funcion config (Suc i) (Suc k)") auto
  have a: "\<forall>l<j. \<exists>e. funcion (Suc k + l) = Rechazada e"
    using Suc.prems(1) by (metis Suc_less_eq add_Suc_right add_Suc)
  have b: "funcion (Suc k + j) = Resuelta r"
    using Suc.prems(2) by simp
  have c: "int (Suc i + j) < a_maxIntentos config"
    using Suc.prems(3) by simp
  note ih = Suc.IH [OF a b c r]
  from Suc.prems(4) e lt r
  have eq: "p = p1" "k' = k1"
    "tr = Ejecutar (Rechazada e) # aviso_async config (Suc i)
            @ Esperar (o_num (demoraEntreIntentos config) 1000) # tr1"
    by (simp_all add: mientras.simps [of funcion config i k])
  from ih eq show ?case
    by (simp add: lecturas_append aviso_async_lecturas entreIntentos_Suc [of "Suc j", simplified])
qed

subsection \<open>The retries of the object literal\<close>

lemma aviso_literal_lecturas:
  "pasos (aviso_literal self) = []"
  "llamadas (aviso_literal self) = 0"
  "fallos (aviso_literal self) = 0"
  "esperas (aviso_literal self) = []"
  "erroresLog (aviso_literal self) = []"
  "retrollamadas (aviso_literal self) = []"
  "avisos (aviso_literal self) =
     (if l_modoSilencioso (l_configuracion self) then [] else [[intentosRealizados self]])"
  by (simp_all add: aviso_literal_def)

lemma intentarEjecucion_siempreFalla:
  assumes "siempreFalla (l_ejecutar self)" and "intentarEjecucion self k = (p, self', k', tr)"
  shows "p = Rechazada todosFallaron
          \<and> k' = k + quedan (l_reintentos (l_configuracion self)) (intentosRealizados self)
          \<and> self' = self\<lparr> intentosRealizados := intentosRealizados self
                + quedan (l_reintentos (l_configuracion self)) (intentosRealizados self) \<rparr>
          \<and> pasos tr = entreIntentos (quedan (l_reintentos (l_configuracion self))
                           (intentosRealizados self)) (l_demoraEntreIntentos (l_configuracion self))
          \<and> llamadas tr = quedan (l_reintentos (l_configuracion self)) (intentosRealizados self)
          \<and> erroresLog tr = [] \<and> retrollamadas tr = []"
  using assms
proof (induction self k arbitrary: p self' k' tr rule: intentarEjecucion.induct)
  case (1 self k)
  let ?n = "l_reintentos (l_configuracion self)"
  let ?i = "intentosRealizados self"
  let ?s = "self\<lparr> intentosRealizados := Suc ?i \<rparr>"
  from siempreFallaD [OF "1.prems"(1)] obtain e where e: "l_ejecutar self k = Rechazada e" ..
  show ?case
  proof (cases "int (Suc ?i) < ?n")
    case True
    obtain p1 s1 k1 tr1 where r: "intentarEjecucion ?s (Suc k) = (p1, s1, k1, tr1)"
      by (cases "intentarEjecucion ?s (Suc k)") auto
    have sf: "siempreFalla (l_ejecutar ?s)" using "1.prems"(1) by simp
    have lt: "int (intentosRealizados ?s) < l_reintentos (l_configuracion ?s)"
      using True by simp
    note ih = "1.IH" [OF e refl lt sf r]
    from "1.prems"(2) e True r
    have eq: "p = p1" "self' = s1" "k' = k1"
      "tr = Ejecutar (Rechazada e) # aviso_literal ?s
              @ Esperar (l_demoraEntreIntentos (l_configuracion self)) # tr1"
      by (simp_all add: intentarEjecucion.simps [of self k] Let_def)
    from ih eq show ?thesis
      by (simp add: lecturas_append aviso_literal_lecturas quedan_Suc [OF True]
          entreIntentos_Suc [OF quedan_pos])
  next
    case False
    from "1.prems"(2) e False
    have "p = Rechazada todosFallaron" "self' = ?s" "k' = Suc k"
      "tr = Ejecutar (Rechazada e) # aviso_literal ?s"
      by (auto simp: intentarEjecucion.simps [of self k] Let_def)
    then show ?thesis
      by (simp add: lecturas_append aviso_literal_lecturas quedan_fin [OF False] entreIntentos_def)
  qed
qed

subsection \<open>Construction\<close>

text \<open>
  C10. In the class, a constructor argument without \<^verbatim>\<open>configuracion\<close> builds the same
  task as one whose \<^verbatim>\<open>configuracion\<close> is the empty object, and the configuration of
  both is the default one: 3 attempts, 1000 ms, not silent. The constructor has no
  failing branch.
\<close>

theorem constructor_clase_sin_configuracion:
  "constructor_clase (ops\<lparr> configuracion := None \<rparr>)
     = constructor_clase (ops\<lparr> configuracion := Some conf_vacia \<rparr>)
   \<and> c_config (constructor_clase (ops\<lparr> configuracion := None \<rparr>))
     = \<lparr> maxIntentos = 3, demora = 1000, silencio = False \<rparr>"
  by (simp add: constructor_clase_def prepararConfiguracion_clase_def conf_vacia_def
      o_num_def o_bool_def)

subsection \<open>An operation that always fails\<close>

lemma quedan_0: "1 \<le> n \<Longrightarrow> quedan n 0 = nat n"
  by (auto simp: quedan_def)

lemma iniciar_clase_siempreFalla:
  assumes "siempreFalla (c_ejecutar this)" and "iniciar_clase this k = (p, k', tr)"
  shows "p = Rechazada todosFallaron
          \<and> k' = k + quedan (maxIntentos (c_config this)) 0
          \<and> llamadas tr = quedan (maxIntentos (c_config this)) 0
          \<and> pasos tr = entreIntentos (quedan (maxIntentos (c_config this)) 0) (demora (c_config this))
          \<and> erroresLog tr = [(msgError (c_nombre this), todosFallaron)]
          \<and> retrollamadas tr = []"
proof -
  obtain p0 k0 tr0 where r: "intentar (c_ejecutar this) (c_config this) 0 k = (p0, k0, tr0)"
    by (cases "intentar (c_ejecutar this) (c_config this) 0 k") auto
  note a = intentar_siempreFalla [OF assms(1) r] and g = intentar_general [OF r]
  from a have p0: "p0 = Rechazada todosFallaron" by simp
  from assms(2) r p0
  have eq: "p = Rechazada todosFallaron" "k' = k0"
    "tr = tr0 @ [ConsoleError (msgError (c_nombre this)) todosFallaron]"
    by (auto simp: iniciar_clase_def ejecutarConResiliencia_clase_def)
  from a g eq show ?thesis
    by (simp add: lecturas_append)
qed

lemma iniciar_async_siempreFalla:
  assumes "configuracion ops = Some c" and "siempreFalla (ejecutar ops)"
    and "iniciar_async ops k = (q, k', tr)"
  shows "q = Resuelta ()
          \<and> k' = k + nat (o_num (reintentos c) 3)
          \<and> llamadas tr = nat (o_num (reintentos c) 3)
          \<and> pasos tr = concat (replicate (nat (o_num (reintentos c) 3))
                                  [Llamada, Pausa (o_num (demoraEntreIntentos c) 1000)])
          \<and> erroresLog tr = [(msgError (nombre_async ops),
                               todosFallaron)]
          \<and> retrollamadas tr = []"
proof -
  let ?config = "prepararConfiguracion_async c"
  obtain p0 k0 tr0 where r: "mientras (ejecutar ops) ?config 0 k = (p0, k0, tr0)"
    by (cases "mientras (ejecutar ops) ?config 0 k") auto
  note a = mientras_siempreFalla [OF assms(2) r] and g = mientras_general [OF r]
  from a have p0: "p0 = Rechazada todosFallaron" by simp
  from assms(1,3) r p0
  have eq: "q = Resuelta ()" "k' = k0"
    "tr = tr0 @ [logError todosFallaron (nombre ops)]"
    by (auto simp: iniciar_async_def ejecutarConResiliencia_async_def)
  have c: "a_maxIntentos ?config = o_num (reintentos c) 3"
    "demoraEntreIntentos ?config = demoraEntreIntentos c"
    by (simp_all add: prepararConfiguracion_async_def)
  from a g eq show ?thesis
    by (simp add: lecturas_append c logError_def nombre_async_def)
qed

lemma iniciar_literal_siempreFalla:
  assumes "siempreFalla (l_ejecutar this)" and "iniciar_literal this k = (p, self, k', tr)"
  shows "p = Rechazada todosFallaron
          \<and> self = this\<lparr> intentosRealizados := quedan (l_reintentos (l_configuracion this)) 0 \<rparr>
          \<and> k' = k + quedan (l_reintentos (l_configuracion this)) 0
          \<and> llamadas tr = quedan (l_reintentos (l_configuracion this)) 0
          \<and> pasos tr = entreIntentos (quedan (l_reintentos (l_configuracion this)) 0)
                          (l_demoraEntreIntentos (l_configuracion this))
          \<and> erroresLog tr = [(msgError (l_nombre this), todosFallaron)]
          \<and> retrollamadas tr = []"
proof -
  let ?s = "this\<lparr> intentosRealizados := 0 \<rparr>"
  obtain p0 s0 k0 tr0 where r: "intentarEjecucion ?s k = (p0, s0, k0, tr0)"
    by (cases "intentarEjecucion ?s k") auto
  have sf: "siempreFalla (l_ejecutar ?s)" using assms(1) by simp
  note a = intentarEjecucion_siempreFalla [OF sf r]
  from a have p0: "p0 = Rechazada todosFallaron" by simp
  from a have s0: "s0 = this\<lparr> intentosRealizados := quedan (l_reintentos (l_configuracion this)) 0 \<rparr>"
    by simp
  from assms(2) r p0
  have eq: "p = Rechazada todosFallaron" "self = s0" "k' = k0"
    "tr = tr0 @ [ConsoleError (msgError (l_nombre s0)) todosFallaron]"
    by (auto simp: iniciar_literal_def)
  from a eq s0 show ?thesis
    by (simp add: lecturas_append)
qed

text \<open>
  C1, as amended. The configuration gives \<open>n \<ge> 1\<close> attempts and a wait of \<open>ms\<close>, and the
  operation is rejected at every invocation. In the class, one call of \<^verbatim>\<open>iniciar()\<close>
  invokes the operation exactly \<open>n\<close> times, with exactly \<open>n - 1\<close> waits of \<open>ms\<close>, each
  between one attempt and the next, and the promise is rejected with the error of
  exhaustion. In the factory function, one call invokes the operation exactly \<open>n\<close> times,
  its run starts with the same schedule (no wait before the first attempt, one wait of
  \<open>ms\<close> between an attempt and the next), the error of exhaustion is logged once, and the
  promise is resolved, not rejected. What the factory function does after its last attempt
  is not stated here.
\<close>

theorem iniciar_siempreFalla:
  assumes "configuracion ops = Some c" and "o_num (reintentos c) 3 = n" and "1 \<le> n"
    and "o_num (demoraEntreIntentos c) 1000 = ms"
    and "siempreFalla (ejecutar ops)"
    and "iniciar_clase (constructor_clase ops) k = (p, k', tr)"
    and "iniciar_async ops k = (q, k'', tr')"
  shows "llamadas tr = nat n \<and> pasos tr = entreIntentos (nat n) ms
          \<and> p = Rechazada todosFallaron
          \<and> llamadas tr' = nat n \<and> prefix (entreIntentos (nat n) ms) (pasos tr')
          \<and> erroresLog tr' = [(msgError (nombre_async ops),
                                todosFallaron)]
          \<and> q = Resuelta ()"
proof -
  let ?t = "constructor_clase ops"
  have conf: "maxIntentos (c_config ?t) = n" "demora (c_config ?t) = ms"
    using assms(1,2,4) by (simp_all add: constructor_clase_def prepararConfiguracion_clase_def)
  have sf: "siempreFalla (c_ejecutar ?t)"
    using assms(5) by (simp add: constructor_clase_def)
  note cl = iniciar_clase_siempreFalla [OF sf assms(6)]
  note as = iniciar_async_siempreFalla [OF assms(1,5,7), unfolded assms(2) assms(4)]
  have pos: "0 < nat n" using assms(3) by simp
  from cl conf quedan_0 [OF assms(3)]
  have "llamadas tr = nat n \<and> pasos tr = entreIntentos (nat n) ms \<and> p = Rechazada todosFallaron"
    by simp
  moreover from as pasos_async_entreIntentos [OF pos, of ms]
  have "llamadas tr' = nat n \<and> prefix (entreIntentos (nat n) ms) (pasos tr')"
    by simp
  moreover note as
  ultimately show ?thesis by simp
qed

text \<open>
  The example of the sources (3 attempts, 1500 ms, not silent) with an operation that
  always fails, run in the class and in the factory function.
\<close>

lemma ops_rechaza_clase:
  "iniciar_clase (constructor_clase (ops_rechaza conf_ejemplo)) 0 =
     (Rechazada todosFallaron, 3,
      [Ejecutar (Rechazada 0), ConsoleWarn [Txt ''Intento '', Num 1, Txt '' fallido:''] (Some 0),
       Esperar 1500,
       Ejecutar (Rechazada 1), ConsoleWarn [Txt ''Intento '', Num 2, Txt '' fallido:''] (Some 1),
       Esperar 1500,
       Ejecutar (Rechazada 2), ConsoleWarn [Txt ''Intento '', Num 3, Txt '' fallido:''] (Some 2),
       ConsoleError (msgError ''Cargar'') todosFallaron])"
  by (simp add: iniciar_clase_def ejecutarConResiliencia_clase_def intentar.simps
      constructor_clase_def prepararConfiguracion_clase_def ops_rechaza_def conf_ejemplo_def
      o_num_def o_bool_def o_str_def aviso_clase_def)

lemma ops_rechaza_async:
  "iniciar_async (ops_rechaza conf_ejemplo) 0 =
     (Resuelta (), 3,
      [Ejecutar (Rechazada 0), ConsoleWarn [Txt ''Intento '', Num 1, Txt '' fallido.''] None,
       Esperar 1500,
       Ejecutar (Rechazada 1), ConsoleWarn [Txt ''Intento '', Num 2, Txt '' fallido.''] None,
       Esperar 1500,
       Ejecutar (Rechazada 2), ConsoleWarn [Txt ''Intento '', Num 3, Txt '' fallido.''] None,
       Esperar 1500,
       ConsoleError (msgError ''Cargar'') todosFallaron])"
  by (simp add: iniciar_async_def ejecutarConResiliencia_async_def mientras.simps
      prepararConfiguracion_async_def ops_rechaza_def conf_ejemplo_def
      o_num_def o_bool_def aviso_async_def logError_def)

theorem iniciar_siempreFalla_witness:
  "o_num (reintentos conf_ejemplo) 3 = 3
   \<and> siempreFalla (ejecutar (ops_rechaza conf_ejemplo))
   \<and> llamadas (snd (snd (iniciar_clase (constructor_clase (ops_rechaza conf_ejemplo)) 0))) = 3
   \<and> pasos (snd (snd (iniciar_clase (constructor_clase (ops_rechaza conf_ejemplo)) 0)))
       = [Llamada, Pausa 1500, Llamada, Pausa 1500, Llamada]
   \<and> fst (iniciar_clase (constructor_clase (ops_rechaza conf_ejemplo)) 0) = Rechazada todosFallaron
   \<and> llamadas (snd (snd (iniciar_async (ops_rechaza conf_ejemplo) 0))) = 3
   \<and> prefix [Llamada, Pausa 1500, Llamada, Pausa 1500, Llamada]
        (pasos (snd (snd (iniciar_async (ops_rechaza conf_ejemplo) 0))))
   \<and> fst (iniciar_async (ops_rechaza conf_ejemplo) 0) = Resuelta ()"
proof -
  have h1: "configuracion (ops_rechaza conf_ejemplo) = Some conf_ejemplo"
    by (simp add: ops_rechaza_def)
  have h2: "o_num (reintentos conf_ejemplo) 3 = 3"
    by (simp add: conf_ejemplo_def o_num_def)
  have h3: "(1::int) \<le> 3" by simp
  have h4: "o_num (demoraEntreIntentos conf_ejemplo) 1000 = 1500"
    by (simp add: conf_ejemplo_def o_num_def)
  have h5: "siempreFalla (ejecutar (ops_rechaza conf_ejemplo))"
    by (simp add: siempreFalla_def ops_rechaza_def)
  have e: "entreIntentos (nat 3) 1500 = [Llamada, Pausa 1500, Llamada, Pausa 1500, Llamada]"
    by (simp add: entreIntentos_def eval_nat_numeral)
  from iniciar_siempreFalla [OF h1 h2 h3 h4 h5 ops_rechaza_clase ops_rechaza_async] h2 h5
  show ?thesis
    unfolding e ops_rechaza_clase ops_rechaza_async by simp
qed

text \<open>
  With one attempt, the factory function waits once after the only attempt, logs, and the
  promise of \<^verbatim>\<open>iniciar()\<close> is resolved.
\<close>

theorem iniciar_async_un_intento_counterexample:
  "o_num (reintentos conf_un_intento) 3 = 1
   \<and> siempreFalla (ejecutar (ops_rechaza conf_un_intento))
   \<and> iniciar_async (ops_rechaza conf_un_intento) 0 =
       (Resuelta (), 1,
        [Ejecutar (Rechazada 0), ConsoleWarn [Txt ''Intento '', Num 1, Txt '' fallido.''] None,
         Esperar 1000,
         ConsoleError (msgError ''Cargar'') todosFallaron])"
  by (simp add: iniciar_async_def ejecutarConResiliencia_async_def mientras.simps
      prepararConfiguracion_async_def ops_rechaza_def conf_un_intento_def siempreFalla_def
      o_num_def o_bool_def aviso_async_def logError_def)

subsection \<open>Starting again\<close>

lemma configurar_ejemplo: "configurar 0 (ops_rechaza conf_ejemplo) = Inr literal_ejemplo"
  by (simp add: configurar_def ops_rechaza_def conf_ejemplo_def literal_ejemplo_def
      o_num_def o_bool_def o_str_def)

text \<open>
  C8. \<^verbatim>\<open>iniciar()\<close> of the object literal sets the counter to 0 first, so its run does not
  depend on the value the counter had. With an operation that always fails and \<open>n \<ge> 1\<close>
  attempts, the first call ends in the error of exhaustion and leaves the counter at \<open>n\<close>;
  the second call, on the object the first one left, again invokes the operation exactly
  \<open>n\<close> times, with the waits between, before it fails. In the class the counter is a local
  variable of each call, and a second call of \<^verbatim>\<open>iniciar()\<close> on the same task does the same.
\<close>

theorem iniciar_otra_vez:
  assumes "siempreFalla (l_ejecutar this)" and "1 \<le> l_reintentos (l_configuracion this)"
    and "iniciar_literal this k = (p, this', k', tr)"
    and "iniciar_literal this' k' = (p2, this2, k2, tr2)"
    and "siempreFalla (c_ejecutar t)" and "1 \<le> maxIntentos (c_config t)"
    and "iniciar_clase t j = (q, j', sr)"
    and "iniciar_clase t j' = (q2, j2, sr2)"
  shows "iniciar_literal (this\<lparr> intentosRealizados := v \<rparr>) k = iniciar_literal this k
          \<and> p = Rechazada todosFallaron
          \<and> intentosRealizados this' = nat (l_reintentos (l_configuracion this))
          \<and> llamadas tr2 = nat (l_reintentos (l_configuracion this))
          \<and> pasos tr2 = entreIntentos (nat (l_reintentos (l_configuracion this)))
                           (l_demoraEntreIntentos (l_configuracion this))
          \<and> p2 = Rechazada todosFallaron
          \<and> intentosRealizados this2 = nat (l_reintentos (l_configuracion this))
          \<and> q = Rechazada todosFallaron
          \<and> llamadas sr2 = nat (maxIntentos (c_config t))
          \<and> pasos sr2 = entreIntentos (nat (maxIntentos (c_config t))) (demora (c_config t))
          \<and> q2 = Rechazada todosFallaron"
proof -
  have r0: "iniciar_literal (this\<lparr> intentosRealizados := v \<rparr>) k = iniciar_literal this k"
    by (simp add: iniciar_literal_def)
  note a = iniciar_literal_siempreFalla [OF assms(1,3), unfolded quedan_0 [OF assms(2)]]
  from a have s: "this' = this\<lparr> intentosRealizados := nat (l_reintentos (l_configuracion this)) \<rparr>"
    by simp
  have sf: "siempreFalla (l_ejecutar this')" using assms(1) s by simp
  have n: "1 \<le> l_reintentos (l_configuracion this')" using assms(2) s by simp
  note b = iniciar_literal_siempreFalla [OF sf assms(4), unfolded quedan_0 [OF n]]
  note c = iniciar_clase_siempreFalla [OF assms(5,7), unfolded quedan_0 [OF assms(6)]]
  note d = iniciar_clase_siempreFalla [OF assms(5,8), unfolded quedan_0 [OF assms(6)]]
  from r0 a b c d s show ?thesis by simp
qed

lemma literal_ejemplo_primera:
  "iniciar_literal literal_ejemplo 0 =
     (Rechazada todosFallaron, literal_ejemplo\<lparr> intentosRealizados := 3 \<rparr>, 3,
      [Ejecutar (Rechazada 0),
       ConsoleWarn [Txt ''Intento '', Num 1, Txt ('' fallido en '' @ comilla), Nom ''Cargar'',
                    Txt (comilla @ ''.'')] None,
       Esperar 1500,
       Ejecutar (Rechazada 1),
       ConsoleWarn [Txt ''Intento '', Num 2, Txt ('' fallido en '' @ comilla), Nom ''Cargar'',
                    Txt (comilla @ ''.'')] None,
       Esperar 1500,
       Ejecutar (Rechazada 2),
       ConsoleWarn [Txt ''Intento '', Num 3, Txt ('' fallido en '' @ comilla), Nom ''Cargar'',
                    Txt (comilla @ ''.'')] None,
       ConsoleError (msgError ''Cargar'') todosFallaron])"
  by (simp add: iniciar_literal_def intentarEjecucion.simps literal_ejemplo_def aviso_literal_def
      Let_def)

lemma literal_ejemplo_segunda:
  "iniciar_literal (literal_ejemplo\<lparr> intentosRealizados := 3 \<rparr>) 3 =
     (Rechazada todosFallaron, literal_ejemplo\<lparr> intentosRealizados := 3 \<rparr>, 6,
      [Ejecutar (Rechazada 3),
       ConsoleWarn [Txt ''Intento '', Num 1, Txt ('' fallido en '' @ comilla), Nom ''Cargar'',
                    Txt (comilla @ ''.'')] None,
       Esperar 1500,
       Ejecutar (Rechazada 4),
       ConsoleWarn [Txt ''Intento '', Num 2, Txt ('' fallido en '' @ comilla), Nom ''Cargar'',
                    Txt (comilla @ ''.'')] None,
       Esperar 1500,
       Ejecutar (Rechazada 5),
       ConsoleWarn [Txt ''Intento '', Num 3, Txt ('' fallido en '' @ comilla), Nom ''Cargar'',
                    Txt (comilla @ ''.'')] None,
       ConsoleError (msgError ''Cargar'') todosFallaron])"
  by (simp add: iniciar_literal_def intentarEjecucion.simps literal_ejemplo_def aviso_literal_def
      Let_def)

lemma ops_rechaza_clase_segunda:
  "iniciar_clase (constructor_clase (ops_rechaza conf_ejemplo)) 3 =
     (Rechazada todosFallaron, 6,
      [Ejecutar (Rechazada 3), ConsoleWarn [Txt ''Intento '', Num 1, Txt '' fallido:''] (Some 3),
       Esperar 1500,
       Ejecutar (Rechazada 4), ConsoleWarn [Txt ''Intento '', Num 2, Txt '' fallido:''] (Some 4),
       Esperar 1500,
       Ejecutar (Rechazada 5), ConsoleWarn [Txt ''Intento '', Num 3, Txt '' fallido:''] (Some 5),
       ConsoleError (msgError ''Cargar'') todosFallaron])"
  by (simp add: iniciar_clase_def ejecutarConResiliencia_clase_def intentar.simps
      constructor_clase_def prepararConfiguracion_clase_def ops_rechaza_def conf_ejemplo_def
      o_num_def o_bool_def o_str_def aviso_clase_def)

theorem iniciar_otra_vez_witness:
  "siempreFalla (l_ejecutar literal_ejemplo)
   \<and> l_reintentos (l_configuracion literal_ejemplo) = 3
   \<and> intentosRealizados (fst (snd (iniciar_literal literal_ejemplo 0))) = 3
   \<and> llamadas (snd (snd (snd (iniciar_literal (fst (snd (iniciar_literal literal_ejemplo 0))) 3)))) = 3
   \<and> fst (iniciar_literal (fst (snd (iniciar_literal literal_ejemplo 0))) 3) = Rechazada todosFallaron
   \<and> maxIntentos (c_config (constructor_clase (ops_rechaza conf_ejemplo))) = 3
   \<and> llamadas (snd (snd (iniciar_clase (constructor_clase (ops_rechaza conf_ejemplo)) 3))) = 3
   \<and> fst (iniciar_clase (constructor_clase (ops_rechaza conf_ejemplo)) 3) = Rechazada todosFallaron"
proof -
  have h1: "siempreFalla (l_ejecutar literal_ejemplo)"
    by (simp add: siempreFalla_def literal_ejemplo_def)
  have n: "l_reintentos (l_configuracion literal_ejemplo) = 3"
    by (simp add: literal_ejemplo_def)
  have h2: "1 \<le> l_reintentos (l_configuracion literal_ejemplo)"
    by (simp add: n)
  have h5: "siempreFalla (c_ejecutar (constructor_clase (ops_rechaza conf_ejemplo)))"
    by (simp add: siempreFalla_def constructor_clase_def ops_rechaza_def)
  have m: "maxIntentos (c_config (constructor_clase (ops_rechaza conf_ejemplo))) = 3"
    by (simp add: constructor_clase_def prepararConfiguracion_clase_def ops_rechaza_def
        conf_ejemplo_def o_num_def)
  have h6: "1 \<le> maxIntentos (c_config (constructor_clase (ops_rechaza conf_ejemplo)))"
    by (simp add: m)
  from iniciar_otra_vez [OF h1 h2 literal_ejemplo_primera literal_ejemplo_segunda
      h5 h6 ops_rechaza_clase ops_rechaza_clase_segunda] h1 n m
  show ?thesis
    by (simp add: literal_ejemplo_primera literal_ejemplo_segunda ops_rechaza_clase_segunda)
qed

subsection \<open>An operation that succeeds at its \<open>n\<close>-th invocation\<close>

lemma ejecutarConResiliencia_clase_exito:
  assumes "\<forall>l<j. \<exists>e. funcion (k + l) = Rechazada e" and "funcion (k + j) = Resuelta r"
    and "j = 0 \<or> int j < maxIntentos conf"
  shows "\<exists>tr0. ejecutarConResiliencia_clase funcion conf k = (Resuelta r, k + Suc j, tr0)
          \<and> llamadas tr0 = Suc j \<and> fallos tr0 = j
          \<and> pasos tr0 = entreIntentos (Suc j) (demora conf)
          \<and> erroresLog tr0 = [] \<and> retrollamadas tr0 = []"
proof -
  obtain p0 k0 tr0 where r: "intentar funcion conf 0 k = (p0, k0, tr0)"
    by (cases "intentar funcion conf 0 k") auto
  have c: "j = 0 \<or> int (0 + j) < maxIntentos conf" using assms(3) by simp
  from intentar_exito [OF assms(1,2) c r] intentar_general [OF r] r
  show ?thesis by (simp add: ejecutarConResiliencia_clase_def)
qed

lemma ejecutarConResiliencia_async_exito:
  assumes "\<forall>l<j. \<exists>e. funcion (k + l) = Rechazada e" and "funcion (k + j) = Resuelta r"
    and "int j < a_maxIntentos config"
  shows "\<exists>tr0. ejecutarConResiliencia_async funcion config k = (Resuelta r, k + Suc j, tr0)
          \<and> llamadas tr0 = Suc j \<and> fallos tr0 = j
          \<and> pasos tr0 = entreIntentos (Suc j) (o_num (demoraEntreIntentos config) 1000)
          \<and> erroresLog tr0 = [] \<and> retrollamadas tr0 = []"
proof -
  obtain p0 k0 tr0 where r: "mientras funcion config 0 k = (p0, k0, tr0)"
    by (cases "mientras funcion config 0 k") auto
  have c: "int (0 + j) < a_maxIntentos config" using assms(3) by simp
  from mientras_exito [OF assms(1,2) c r] mientras_general [OF r] r
  show ?thesis by (simp add: ejecutarConResiliencia_async_def)
qed

lemma constructor_clase_campos:
  "configuracion ops = Some c \<Longrightarrow> c_config (constructor_clase ops) = prepararConfiguracion_clase c"
  "c_ejecutar (constructor_clase ops) = ejecutar ops"
  "c_despues (constructor_clase ops) = despues ops"
  "c_nombre (constructor_clase ops) = o_str (nombre ops) ''TareaSinNombre''"
  by (simp_all add: constructor_clase_def)

text \<open>
  C3. The configuration gives at least \<open>n \<ge> 1\<close> attempts, the operation is rejected at its
  first \<open>n - 1\<close> invocations and resolved with \<open>r\<close> at the \<open>n\<close>-th, and the callback given
  returns. Then one call of \<^verbatim>\<open>iniciar()\<close>, in the class and in the factory function, invokes
  the operation exactly \<open>n\<close> times, calls the callback exactly once, with \<open>r\<close>, logs no
  error, and its promise is resolved: no failure reaches the caller.
\<close>

theorem exito_en_intento:
  assumes "configuracion ops = Some c" and "1 \<le> n" and "int n \<le> o_num (reintentos c) 3"
    and "\<forall>l<n - 1. \<exists>e. ejecutar ops (k + l) = Rechazada e"
    and "ejecutar ops (k + (n - 1)) = Resuelta r"
    and "despues ops = Some f" and "f r = None"
    and "iniciar_clase (constructor_clase ops) k = (p, k', tr)"
    and "iniciar_async ops k = (q, k'', tr')"
  shows "llamadas tr = n \<and> retrollamadas tr = [r] \<and> p = Resuelta r \<and> erroresLog tr = []
          \<and> llamadas tr' = n \<and> retrollamadas tr' = [r] \<and> q = Resuelta () \<and> erroresLog tr' = []"
proof -
  from assms(2) have n: "Suc (n - 1) = n" by simp
  have lim: "n - 1 = 0 \<or> int (n - 1) < maxIntentos (prepararConfiguracion_clase c)"
    using assms(2,3) by (simp add: prepararConfiguracion_clase_def)
  from ejecutarConResiliencia_clase_exito [OF assms(4,5) lim]
  obtain tr0 where
    l: "ejecutarConResiliencia_clase (ejecutar ops) (prepararConfiguracion_clase c) k
          = (Resuelta r, k + Suc (n - 1), tr0)"
    and t: "llamadas tr0 = Suc (n - 1)" "erroresLog tr0 = []" "retrollamadas tr0 = []"
    by blast
  from assms(8) l assms(1,6,7)
  have cl: "p = Resuelta r" "tr = tr0 @ [Despues r None]"
    by (auto simp: iniciar_clase_def constructor_clase_campos)
  have lim': "int (n - 1) < a_maxIntentos (prepararConfiguracion_async c)"
    using assms(2,3) by (simp add: prepararConfiguracion_async_def)
  from ejecutarConResiliencia_async_exito [OF assms(4,5) lim']
  obtain tr1 where
    l': "ejecutarConResiliencia_async (ejecutar ops) (prepararConfiguracion_async c) k
          = (Resuelta r, k + Suc (n - 1), tr1)"
    and t': "llamadas tr1 = Suc (n - 1)" "erroresLog tr1 = []" "retrollamadas tr1 = []"
    by blast
  from assms(9) l' assms(1,6,7)
  have as: "q = Resuelta ()" "tr' = tr1 @ [Despues r None]"
    by (auto simp: iniciar_async_def)
  from cl as t t' n show ?thesis
    by (simp add: lecturas_append)
qed

text \<open>Success at the second of three attempts: two invocations, one wait, one callback.\<close>

lemma ops_segundo_clase:
  "iniciar_clase (constructor_clase (ops_segundo (Some (\<lambda>r. None)))) 0 =
     (Resuelta 42, 2,
      [Ejecutar (Rechazada 0), ConsoleWarn [Txt ''Intento '', Num 1, Txt '' fallido:''] (Some 0),
       Esperar 1500,
       Ejecutar (Resuelta 42),
       Despues 42 None])"
  by (simp add: iniciar_clase_def ejecutarConResiliencia_clase_def intentar.simps
      constructor_clase_def prepararConfiguracion_clase_def ops_segundo_def conf_ejemplo_def
      o_num_def o_bool_def o_str_def aviso_clase_def)

lemma ops_segundo_async:
  "iniciar_async (ops_segundo (Some (\<lambda>r. None))) 0 =
     (Resuelta (), 2,
      [Ejecutar (Rechazada 0), ConsoleWarn [Txt ''Intento '', Num 1, Txt '' fallido.''] None,
       Esperar 1500,
       Ejecutar (Resuelta 42),
       Despues 42 None])"
  by (simp add: iniciar_async_def ejecutarConResiliencia_async_def mientras.simps
      prepararConfiguracion_async_def ops_segundo_def conf_ejemplo_def
      o_num_def o_bool_def aviso_async_def logError_def)

theorem exito_en_intento_witness:
  "ejecutar (ops_segundo (Some (\<lambda>r. None))) 0 = Rechazada 0
   \<and> ejecutar (ops_segundo (Some (\<lambda>r. None))) 1 = Resuelta 42
   \<and> llamadas (snd (snd (iniciar_clase (constructor_clase (ops_segundo (Some (\<lambda>r. None)))) 0))) = 2
   \<and> retrollamadas (snd (snd (iniciar_clase (constructor_clase (ops_segundo (Some (\<lambda>r. None)))) 0)))
       = [42]
   \<and> fst (iniciar_clase (constructor_clase (ops_segundo (Some (\<lambda>r. None)))) 0) = Resuelta 42
   \<and> llamadas (snd (snd (iniciar_async (ops_segundo (Some (\<lambda>r. None))) 0))) = 2
   \<and> retrollamadas (snd (snd (iniciar_async (ops_segundo (Some (\<lambda>r. None))) 0))) = [42]
   \<and> fst (iniciar_async (ops_segundo (Some (\<lambda>r. None))) 0) = Resuelta ()"
proof -
  let ?ops = "ops_segundo (Some (\<lambda>r. None))"
  have h1: "configuracion ?ops = Some conf_ejemplo" by (simp add: ops_segundo_def)
  have h2: "1 \<le> (2::nat)" by simp
  have h3: "int 2 \<le> o_num (reintentos conf_ejemplo) 3"
    by (simp add: conf_ejemplo_def o_num_def)
  have h4: "\<forall>l<2 - 1. \<exists>e. ejecutar ?ops (0 + l) = Rechazada e"
    by (simp add: ops_segundo_def)
  have h5: "ejecutar ?ops (0 + (2 - 1)) = Resuelta 42"
    by (simp add: ops_segundo_def)
  have h6: "despues ?ops = Some (\<lambda>r. None)" by (simp add: ops_segundo_def)
  have h7: "(\<lambda>r::int. None :: nat option) 42 = None" by simp
  from exito_en_intento [OF h1 h2 h3 h4 h5 h6 h7 ops_segundo_clase ops_segundo_async]
  show ?thesis
    by (simp add: ops_segundo_clase ops_segundo_async) (simp add: ops_segundo_def)
qed

text \<open>
  C4, as amended. On success at the \<open>n\<close>-th attempt, the callback, when one is given (and
  returns), is called with the result \<open>r\<close> after the last attempt, as the last event of the
  run, and is not called otherwise. Then the promise of the class resolves with \<open>r\<close>; the
  promise of the factory function resolves without a value.
\<close>

theorem despues_y_resultado:
  assumes "configuracion ops = Some c" and "1 \<le> n" and "int n \<le> o_num (reintentos c) 3"
    and "\<forall>l<n - 1. \<exists>e. ejecutar ops (k + l) = Rechazada e"
    and "ejecutar ops (k + (n - 1)) = Resuelta r"
    and "case despues ops of None \<Rightarrow> True | Some f \<Rightarrow> f r = None"
    and "iniciar_clase (constructor_clase ops) k = (p, k', tr)"
    and "iniciar_async ops k = (q, k'', tr')"
  shows "(\<exists>tr0. tr = tr0 @ (case despues ops of None \<Rightarrow> [] | Some f \<Rightarrow> [Despues r None])
               \<and> llamadas tr0 = n \<and> retrollamadas tr0 = [])
          \<and> p = Resuelta r
          \<and> (\<exists>tr1. tr' = tr1 @ (case despues ops of None \<Rightarrow> [] | Some f \<Rightarrow> [Despues r None])
               \<and> llamadas tr1 = n \<and> retrollamadas tr1 = [])
          \<and> q = Resuelta ()"
proof -
  from assms(2) have n: "Suc (n - 1) = n" by simp
  have lim: "n - 1 = 0 \<or> int (n - 1) < maxIntentos (prepararConfiguracion_clase c)"
    using assms(2,3) by (simp add: prepararConfiguracion_clase_def)
  from ejecutarConResiliencia_clase_exito [OF assms(4,5) lim]
  obtain tr0 where
    l: "ejecutarConResiliencia_clase (ejecutar ops) (prepararConfiguracion_clase c) k
          = (Resuelta r, k + Suc (n - 1), tr0)"
    and t: "llamadas tr0 = Suc (n - 1)" "retrollamadas tr0 = []"
    by blast
  from assms(7) l assms(1,6)
  have cl: "p = Resuelta r"
    "tr = tr0 @ (case despues ops of None \<Rightarrow> [] | Some f \<Rightarrow> [Despues r None])"
    by (auto simp: iniciar_clase_def constructor_clase_campos split: option.splits)
  have lim': "int (n - 1) < a_maxIntentos (prepararConfiguracion_async c)"
    using assms(2,3) by (simp add: prepararConfiguracion_async_def)
  from ejecutarConResiliencia_async_exito [OF assms(4,5) lim']
  obtain tr1 where
    l': "ejecutarConResiliencia_async (ejecutar ops) (prepararConfiguracion_async c) k
          = (Resuelta r, k + Suc (n - 1), tr1)"
    and t': "llamadas tr1 = Suc (n - 1)" "retrollamadas tr1 = []"
    by blast
  from assms(8) l' assms(1,6)
  have as: "q = Resuelta ()"
    "tr' = tr1 @ (case despues ops of None \<Rightarrow> [] | Some f \<Rightarrow> [Despues r None])"
    by (auto simp: iniciar_async_def split: option.splits)
  from cl t n have "\<exists>tr0. tr = tr0 @ (case despues ops of None \<Rightarrow> [] | Some f \<Rightarrow> [Despues r None])
               \<and> llamadas tr0 = n \<and> retrollamadas tr0 = []"
    by auto
  moreover from as t' n
  have "\<exists>tr1. tr' = tr1 @ (case despues ops of None \<Rightarrow> [] | Some f \<Rightarrow> [Despues r None])
               \<and> llamadas tr1 = n \<and> retrollamadas tr1 = []"
    by auto
  ultimately show ?thesis using cl(1) as(1) by simp
qed

theorem despues_y_resultado_witness:
  "despues (ops_segundo (Some (\<lambda>r. None))) = Some (\<lambda>r. None)
   \<and> ejecutar (ops_segundo (Some (\<lambda>r. None))) 1 = Resuelta 42
   \<and> (\<exists>tr0. snd (snd (iniciar_clase (constructor_clase (ops_segundo (Some (\<lambda>r. None)))) 0))
                = tr0 @ [Despues 42 None]
         \<and> llamadas tr0 = 2 \<and> retrollamadas tr0 = [])
   \<and> fst (iniciar_clase (constructor_clase (ops_segundo (Some (\<lambda>r. None)))) 0) = Resuelta 42
   \<and> (\<exists>tr1. snd (snd (iniciar_async (ops_segundo (Some (\<lambda>r. None))) 0))
                = tr1 @ [Despues 42 None]
         \<and> llamadas tr1 = 2 \<and> retrollamadas tr1 = [])
   \<and> fst (iniciar_async (ops_segundo (Some (\<lambda>r. None))) 0) = Resuelta ()"
proof -
  let ?ops = "ops_segundo (Some (\<lambda>r. None))"
  have h1: "configuracion ?ops = Some conf_ejemplo" by (simp add: ops_segundo_def)
  have h2: "1 \<le> (2::nat)" by simp
  have h3: "int 2 \<le> o_num (reintentos conf_ejemplo) 3"
    by (simp add: conf_ejemplo_def o_num_def)
  have h4: "\<forall>l<2 - 1. \<exists>e. ejecutar ?ops (0 + l) = Rechazada e"
    by (simp add: ops_segundo_def)
  have h5: "ejecutar ?ops (0 + (2 - 1)) = Resuelta 42"
    by (simp add: ops_segundo_def)
  have d: "despues ?ops = Some (\<lambda>r. None)" by (simp add: ops_segundo_def)
  have h6: "case despues ?ops of None \<Rightarrow> True | Some f \<Rightarrow> f 42 = None"
    by (simp add: d)
  from despues_y_resultado [OF h1 h2 h3 h4 h5 h6 ops_segundo_clase ops_segundo_async] h5 d
  show ?thesis
    by (simp add: ops_segundo_clase ops_segundo_async)
qed

text \<open>
  The operation resolved with 42 and the callback received 42; the promise of the factory
  function's \<^verbatim>\<open>iniciar()\<close> resolved with \<^verbatim>\<open>undefined\<close>.
\<close>

theorem iniciar_async_sin_resultado_counterexample:
  "ejecutar (ops_segundo (Some (\<lambda>r. None))) 1 = Resuelta 42
   \<and> iniciar_async (ops_segundo (Some (\<lambda>r. None))) 0 =
       (Resuelta (), 2,
        [Ejecutar (Rechazada 0), ConsoleWarn [Txt ''Intento '', Num 1, Txt '' fallido.''] None,
         Esperar 1500,
         Ejecutar (Resuelta 42),
         Despues 42 None])"
  by (simp add: iniciar_async_def ejecutarConResiliencia_async_def mientras.simps
      prepararConfiguracion_async_def ops_segundo_def conf_ejemplo_def
      o_num_def o_bool_def aviso_async_def logError_def)

text \<open>
  C9, as amended. The operation succeeds at its \<open>n\<close>-th attempt with \<open>r\<close> and the callback
  given throws \<open>e\<close>. In both implementations the operation is not invoked again (\<open>n\<close>
  invocations in all), the callback was called once, and \<open>e\<close> is logged once with the name
  of the task. In the class the promise is rejected with \<open>e\<close>: the failure reaches the
  caller. In the factory function the promise is resolved: the failure stops at the log.
\<close>

theorem despues_lanza:
  assumes "configuracion ops = Some c" and "1 \<le> n" and "int n \<le> o_num (reintentos c) 3"
    and "\<forall>l<n - 1. \<exists>e. ejecutar ops (k + l) = Rechazada e"
    and "ejecutar ops (k + (n - 1)) = Resuelta r"
    and "despues ops = Some f" and "f r = Some e"
    and "iniciar_clase (constructor_clase ops) k = (p, k', tr)"
    and "iniciar_async ops k = (q, k'', tr')"
  shows "p = Rechazada (Lanzado e) \<and> llamadas tr = n \<and> k' = k + n \<and> retrollamadas tr = [r]
          \<and> erroresLog tr = [(msgError (o_str (nombre ops) ''TareaSinNombre''), Lanzado e)]
          \<and> q = Resuelta () \<and> llamadas tr' = n \<and> k'' = k + n \<and> retrollamadas tr' = [r]
          \<and> erroresLog tr' = [(msgError (nombre_async ops),
                                Lanzado e)]"
proof -
  from assms(2) have n: "Suc (n - 1) = n" by simp
  have lim: "n - 1 = 0 \<or> int (n - 1) < maxIntentos (prepararConfiguracion_clase c)"
    using assms(2,3) by (simp add: prepararConfiguracion_clase_def)
  from ejecutarConResiliencia_clase_exito [OF assms(4,5) lim]
  obtain tr0 where
    l: "ejecutarConResiliencia_clase (ejecutar ops) (prepararConfiguracion_clase c) k
          = (Resuelta r, k + Suc (n - 1), tr0)"
    and t: "llamadas tr0 = Suc (n - 1)" "erroresLog tr0 = []" "retrollamadas tr0 = []"
    by blast
  from assms(8) l assms(1,6,7)
  have cl: "p = Rechazada (Lanzado e)" "k' = k + Suc (n - 1)"
    "tr = tr0 @ [Despues r (Some e),
                 ConsoleError (msgError (o_str (nombre ops) ''TareaSinNombre'')) (Lanzado e)]"
    by (auto simp: iniciar_clase_def constructor_clase_campos)
  have lim': "int (n - 1) < a_maxIntentos (prepararConfiguracion_async c)"
    using assms(2,3) by (simp add: prepararConfiguracion_async_def)
  from ejecutarConResiliencia_async_exito [OF assms(4,5) lim']
  obtain tr1 where
    l': "ejecutarConResiliencia_async (ejecutar ops) (prepararConfiguracion_async c) k
          = (Resuelta r, k + Suc (n - 1), tr1)"
    and t': "llamadas tr1 = Suc (n - 1)" "erroresLog tr1 = []" "retrollamadas tr1 = []"
    by blast
  from assms(9) l' assms(1,6,7)
  have as: "q = Resuelta ()" "k'' = k + Suc (n - 1)"
    "tr' = tr1 @ [Despues r (Some e), logError (Lanzado e) (nombre ops)]"
    by (auto simp: iniciar_async_def)
  from cl as t t' show ?thesis
    unfolding n by (simp add: lecturas_append logError_def nombre_async_def)
qed

lemma ops_segundo_lanza_clase:
  "iniciar_clase (constructor_clase (ops_segundo (Some (\<lambda>r. Some 7)))) 0 =
     (Rechazada (Lanzado 7), 2,
      [Ejecutar (Rechazada 0), ConsoleWarn [Txt ''Intento '', Num 1, Txt '' fallido:''] (Some 0),
       Esperar 1500,
       Ejecutar (Resuelta 42),
       Despues 42 (Some 7),
       ConsoleError (msgError ''Cargar'') (Lanzado 7)])"
  by (simp add: iniciar_clase_def ejecutarConResiliencia_clase_def intentar.simps
      constructor_clase_def prepararConfiguracion_clase_def ops_segundo_def conf_ejemplo_def
      o_num_def o_bool_def o_str_def aviso_clase_def)

lemma ops_segundo_lanza_async:
  "iniciar_async (ops_segundo (Some (\<lambda>r. Some 7))) 0 =
     (Resuelta (), 2,
      [Ejecutar (Rechazada 0), ConsoleWarn [Txt ''Intento '', Num 1, Txt '' fallido.''] None,
       Esperar 1500,
       Ejecutar (Resuelta 42),
       Despues 42 (Some 7),
       ConsoleError (msgError ''Cargar'') (Lanzado 7)])"
  by (simp add: iniciar_async_def ejecutarConResiliencia_async_def mientras.simps
      prepararConfiguracion_async_def ops_segundo_def conf_ejemplo_def
      o_num_def o_bool_def aviso_async_def logError_def)

theorem despues_lanza_witness:
  "ejecutar (ops_segundo (Some (\<lambda>r. Some 7))) 1 = Resuelta 42
   \<and> fst (iniciar_clase (constructor_clase (ops_segundo (Some (\<lambda>r. Some 7)))) 0)
       = Rechazada (Lanzado 7)
   \<and> llamadas (snd (snd (iniciar_clase (constructor_clase (ops_segundo (Some (\<lambda>r. Some 7)))) 0))) = 2
   \<and> fst (iniciar_async (ops_segundo (Some (\<lambda>r. Some 7))) 0) = Resuelta ()
   \<and> llamadas (snd (snd (iniciar_async (ops_segundo (Some (\<lambda>r. Some 7))) 0))) = 2"
proof -
  let ?ops = "ops_segundo (Some (\<lambda>r. Some 7))"
  have h1: "configuracion ?ops = Some conf_ejemplo" by (simp add: ops_segundo_def)
  have h2: "1 \<le> (2::nat)" by simp
  have h3: "int 2 \<le> o_num (reintentos conf_ejemplo) 3"
    by (simp add: conf_ejemplo_def o_num_def)
  have h4: "\<forall>l<2 - 1. \<exists>e. ejecutar ?ops (0 + l) = Rechazada e"
    by (simp add: ops_segundo_def)
  have h5: "ejecutar ?ops (0 + (2 - 1)) = Resuelta 42"
    by (simp add: ops_segundo_def)
  have h6: "despues ?ops = Some (\<lambda>r. Some 7)" by (simp add: ops_segundo_def)
  have h7: "(\<lambda>r::int. Some (7::nat)) 42 = Some 7" by simp
  from despues_lanza [OF h1 h2 h3 h4 h5 h6 h7 ops_segundo_lanza_clase ops_segundo_lanza_async] h5
  show ?thesis
    by (simp add: ops_segundo_lanza_clase ops_segundo_lanza_async)
qed

text \<open>
  The callback threw 7 after the operation had succeeded; the factory function logged it
  and its promise resolved.
\<close>

theorem iniciar_async_despues_lanza_counterexample:
  "ejecutar (ops_segundo (Some (\<lambda>r. Some 7))) 1 = Resuelta 42
   \<and> despues (ops_segundo (Some (\<lambda>r. Some 7))) = Some (\<lambda>r. Some 7)
   \<and> iniciar_async (ops_segundo (Some (\<lambda>r. Some 7))) 0 =
       (Resuelta (), 2,
        [Ejecutar (Rechazada 0), ConsoleWarn [Txt ''Intento '', Num 1, Txt '' fallido.''] None,
         Esperar 1500,
         Ejecutar (Resuelta 42),
         Despues 42 (Some 7),
         ConsoleError (msgError ''Cargar'') (Lanzado 7)])"
  by (simp add: iniciar_async_def ejecutarConResiliencia_async_def mientras.simps
      prepararConfiguracion_async_def ops_segundo_def conf_ejemplo_def
      o_num_def o_bool_def aviso_async_def logError_def)

subsection \<open>What the caller receives\<close>

text \<open>
  C2, as amended. For every run of the class, the caller of \<^verbatim>\<open>iniciar()\<close> receives exactly
  one of: the result \<open>r\<close> of the invocation that succeeded; a rejection with the error of
  exhaustion, every invocation of the run having failed; or, the operation having
  succeeded with \<open>r\<close> and the callback having thrown \<open>e\<close> on it, a rejection with \<open>e\<close>.
  For every run of the factory function the promise is resolved without a value, whatever
  happened, unless \<^verbatim>\<open>configuracion\<close> was left out (a \<^verbatim>\<open>TypeError\<close>).
\<close>

theorem iniciar_resultados:
  assumes "iniciar_clase this k = (p, k', tr)" and "iniciar_async ops j = (q, j', tr')"
  shows "((\<exists>r. p = Resuelta r \<and> c_ejecutar this (k + fallos tr) = Resuelta r
                \<and> llamadas tr = Suc (fallos tr))
           \<or> (p = Rechazada todosFallaron \<and> fallos tr = llamadas tr)
           \<or> (\<exists>r f e. p = Rechazada (Lanzado e) \<and> c_ejecutar this (k + fallos tr) = Resuelta r
                \<and> llamadas tr = Suc (fallos tr) \<and> c_despues this = Some f \<and> f r = Some e))
          \<and> (q = Resuelta () \<or> (q = Rechazada TypeError \<and> configuracion ops = None))"
proof -
  obtain p0 k0 tr0 where r: "intentar (c_ejecutar this) (c_config this) 0 k = (p0, k0, tr0)"
    by (cases "intentar (c_ejecutar this) (c_config this) 0 k") auto
  note g = intentar_general [OF r]
  have cl: "(\<exists>r. p = Resuelta r \<and> c_ejecutar this (k + fallos tr) = Resuelta r
                \<and> llamadas tr = Suc (fallos tr))
           \<or> (p = Rechazada todosFallaron \<and> fallos tr = llamadas tr)
           \<or> (\<exists>r f e. p = Rechazada (Lanzado e) \<and> c_ejecutar this (k + fallos tr) = Resuelta r
                \<and> llamadas tr = Suc (fallos tr) \<and> c_despues this = Some f \<and> f r = Some e)"
  proof (cases p0)
    case (Rechazada x)
    with g have x: "x = todosFallaron" "fallos tr0 = llamadas tr0" by simp_all
    from assms(1) r Rechazada x
    have "p = Rechazada todosFallaron"
      "tr = tr0 @ [ConsoleError (msgError (c_nombre this)) todosFallaron]"
      by (auto simp: iniciar_clase_def ejecutarConResiliencia_clase_def)
    with x show ?thesis by (simp add: lecturas_append)
  next
    case (Resuelta v)
    with g have v: "llamadas tr0 = Suc (fallos tr0)"
      "c_ejecutar this (k + fallos tr0) = Resuelta v" by simp_all
    show ?thesis
    proof (cases "c_despues this")
      case None
      from assms(1) r Resuelta None have "p = Resuelta v" "tr = tr0"
        by (auto simp: iniciar_clase_def ejecutarConResiliencia_clase_def)
      with v show ?thesis by simp
    next
      case (Some f)
      show ?thesis
      proof (cases "f v")
        case None
        from assms(1) r Resuelta Some None have "p = Resuelta v" "tr = tr0 @ [Despues v None]"
          by (auto simp: iniciar_clase_def ejecutarConResiliencia_clase_def)
        with v show ?thesis by (simp add: lecturas_append)
      next
        case (Some e)
        from assms(1) r Resuelta \<open>c_despues this = Some f\<close> Some
        have "p = Rechazada (Lanzado e)"
          "tr = tr0 @ [Despues v (Some e), ConsoleError (msgError (c_nombre this)) (Lanzado e)]"
          by (auto simp: iniciar_clase_def ejecutarConResiliencia_clase_def)
        with v \<open>c_despues this = Some f\<close> Some show ?thesis by (simp add: lecturas_append)
      qed
    qed
  qed
  have as: "q = Resuelta () \<or> (q = Rechazada TypeError \<and> configuracion ops = None)"
    using assms(2)
    by (auto simp: iniciar_async_def split: option.splits prod.splits promesa.splits)
  from cl as show ?thesis by blast
qed

theorem iniciar_resultados_witness:
  "fst (iniciar_clase (constructor_clase (ops_segundo (Some (\<lambda>r. None)))) 0) = Resuelta 42
   \<and> c_ejecutar (constructor_clase (ops_segundo (Some (\<lambda>r. None)))) 1 = Resuelta 42
   \<and> fst (iniciar_async (ops_rechaza conf_ejemplo) 0) = Resuelta ()"
proof -
  have e: "c_ejecutar (constructor_clase (ops_segundo (Some (\<lambda>r. None)))) 1 = Resuelta 42"
    by (simp add: constructor_clase_def ops_segundo_def)
  from iniciar_resultados [OF ops_segundo_clase ops_rechaza_async] e
  show ?thesis
    by (simp add: ops_segundo_clase ops_rechaza_async)
qed

text \<open>
  Two outcomes the claim excludes: in the class, a rejection with what the callback threw;
  in the factory function, a promise resolved with no value after every attempt failed.
\<close>

theorem iniciar_otros_resultados_counterexample:
  "ejecutar (ops_segundo (Some (\<lambda>r. Some 7))) 1 = Resuelta 42
   \<and> fst (iniciar_clase (constructor_clase (ops_segundo (Some (\<lambda>r. Some 7)))) 0)
       = Rechazada (Lanzado 7)
   \<and> siempreFalla (ejecutar (ops_rechaza conf_ejemplo))
   \<and> fst (iniciar_async (ops_rechaza conf_ejemplo) 0) = Resuelta ()"
proof -
  have "ejecutar (ops_segundo (Some (\<lambda>r. Some 7))) 1 = Resuelta 42"
    by (simp add: ops_segundo_def)
  moreover have "siempreFalla (ejecutar (ops_rechaza conf_ejemplo))"
    by (simp add: ops_rechaza_def siempreFalla_def)
  ultimately show ?thesis
    by (simp add: ops_segundo_lanza_clase ops_rechaza_async)
qed

subsection \<open>The value of the terminal failure\<close>

text \<open>
  C6, as amended. When every attempt is used up, the retries are rejected with
  \<^verbatim>\<open>new Error("Todos los intentos fallaron.")\<close>, a value that holds this message and nothing
  else, whatever the name of the task and the number of attempts; in the class
  \<^verbatim>\<open>iniciar()\<close> is rejected with that same value. The name of the task stands only in the
  message of the error log, which is written once.
\<close>

theorem fallo_terminal:
  assumes "ejecutarConResiliencia_clase (c_ejecutar this) (c_config this) k = (Rechazada x, k0, tr0)"
    and "iniciar_clase this k = (p, k', tr)"
    and "ejecutarConResiliencia_async funcion config j = (Rechazada y, j', tr')"
  shows "x = Error ''Todos los intentos fallaron.'' \<and> p = Rechazada x
          \<and> erroresLog tr = [(msgError (c_nombre this), x)]
          \<and> y = Error ''Todos los intentos fallaron.''"
proof -
  from assms(1) have r: "intentar (c_ejecutar this) (c_config this) 0 k = (Rechazada x, k0, tr0)"
    by (simp add: ejecutarConResiliencia_clase_def)
  from intentar_general [OF r] have x: "x = todosFallaron" and l: "erroresLog tr0 = []"
    by simp_all
  from assms(2) assms(1)
  have eq: "p = Rechazada x" "tr = tr0 @ [ConsoleError (msgError (c_nombre this)) x]"
    by (auto simp: iniciar_clase_def)
  from assms(3) have r': "mientras funcion config 0 j = (Rechazada y, j', tr')"
    by (simp add: ejecutarConResiliencia_async_def)
  from mientras_general [OF r'] have y: "y = todosFallaron" by simp
  from x y eq l show ?thesis
    by (simp add: lecturas_append todosFallaron_def)
qed

lemma ops_rechaza_un_intento_clase:
  "iniciar_clase (constructor_clase ((ops_rechaza conf_un_intento)\<lparr> nombre := Some ''Otra'' \<rparr>)) 0 =
     (Rechazada todosFallaron, 1,
      [Ejecutar (Rechazada 0), ConsoleWarn [Txt ''Intento '', Num 1, Txt '' fallido:''] (Some 0),
       ConsoleError (msgError ''Otra'') todosFallaron])"
  by (simp add: iniciar_clase_def ejecutarConResiliencia_clase_def intentar.simps
      constructor_clase_def prepararConfiguracion_clase_def ops_rechaza_def conf_un_intento_def
      o_num_def o_bool_def o_str_def aviso_clase_def)

lemma ops_rechaza_bucles:
  "ejecutarConResiliencia_clase (c_ejecutar (constructor_clase (ops_rechaza conf_ejemplo)))
     (c_config (constructor_clase (ops_rechaza conf_ejemplo))) 0 =
     (Rechazada todosFallaron, 3,
      [Ejecutar (Rechazada 0), ConsoleWarn [Txt ''Intento '', Num 1, Txt '' fallido:''] (Some 0),
       Esperar 1500,
       Ejecutar (Rechazada 1), ConsoleWarn [Txt ''Intento '', Num 2, Txt '' fallido:''] (Some 1),
       Esperar 1500,
       Ejecutar (Rechazada 2), ConsoleWarn [Txt ''Intento '', Num 3, Txt '' fallido:''] (Some 2)])"
  "ejecutarConResiliencia_async (ejecutar (ops_rechaza conf_ejemplo))
     (prepararConfiguracion_async conf_ejemplo) 0 =
     (Rechazada todosFallaron, 3,
      [Ejecutar (Rechazada 0), ConsoleWarn [Txt ''Intento '', Num 1, Txt '' fallido.''] None,
       Esperar 1500,
       Ejecutar (Rechazada 1), ConsoleWarn [Txt ''Intento '', Num 2, Txt '' fallido.''] None,
       Esperar 1500,
       Ejecutar (Rechazada 2), ConsoleWarn [Txt ''Intento '', Num 3, Txt '' fallido.''] None,
       Esperar 1500])"
  by (simp_all add: ejecutarConResiliencia_clase_def intentar.simps
      ejecutarConResiliencia_async_def mientras.simps prepararConfiguracion_async_def
      constructor_clase_def prepararConfiguracion_clase_def ops_rechaza_def conf_ejemplo_def
      o_num_def o_bool_def o_str_def aviso_clase_def aviso_async_def)

theorem fallo_terminal_witness:
  "fst (iniciar_clase (constructor_clase (ops_rechaza conf_ejemplo)) 0)
     = Rechazada (Error ''Todos los intentos fallaron.'')
   \<and> erroresLog (snd (snd (iniciar_clase (constructor_clase (ops_rechaza conf_ejemplo)) 0)))
     = [(msgError ''Cargar'', Error ''Todos los intentos fallaron.'')]
   \<and> fst (ejecutarConResiliencia_async (ejecutar (ops_rechaza conf_ejemplo))
            (prepararConfiguracion_async conf_ejemplo) 0)
     = Rechazada (Error ''Todos los intentos fallaron.'')"
proof -
  have n: "c_nombre (constructor_clase (ops_rechaza conf_ejemplo)) = ''Cargar''"
    by (simp add: constructor_clase_def ops_rechaza_def o_str_def)
  from fallo_terminal [OF ops_rechaza_bucles(1) ops_rechaza_clase ops_rechaza_bucles(2)]
  show ?thesis
    by (simp add: ops_rechaza_clase ops_rechaza_bucles(2) n)
qed

text \<open>
  Two tasks that differ in name and in number of attempts fail with the same value.
\<close>

theorem fallo_terminal_sin_nombre_counterexample:
  "c_nombre (constructor_clase (ops_rechaza conf_ejemplo)) = ''Cargar''
   \<and> maxIntentos (c_config (constructor_clase (ops_rechaza conf_ejemplo))) = 3
   \<and> fst (iniciar_clase (constructor_clase (ops_rechaza conf_ejemplo)) 0)
       = Rechazada (Error ''Todos los intentos fallaron.'')
   \<and> c_nombre (constructor_clase ((ops_rechaza conf_un_intento)\<lparr> nombre := Some ''Otra'' \<rparr>))
       = ''Otra''
   \<and> maxIntentos (c_config (constructor_clase ((ops_rechaza conf_un_intento)\<lparr> nombre := Some ''Otra'' \<rparr>)))
       = 1
   \<and> fst (iniciar_clase (constructor_clase ((ops_rechaza conf_un_intento)\<lparr> nombre := Some ''Otra'' \<rparr>)) 0)
       = Rechazada (Error ''Todos los intentos fallaron.'')"
proof -
  have "c_nombre (constructor_clase (ops_rechaza conf_ejemplo)) = ''Cargar''"
    "maxIntentos (c_config (constructor_clase (ops_rechaza conf_ejemplo))) = 3"
    "c_nombre (constructor_clase ((ops_rechaza conf_un_intento)\<lparr> nombre := Some ''Otra'' \<rparr>))
       = ''Otra''"
    "maxIntentos (c_config (constructor_clase ((ops_rechaza conf_un_intento)\<lparr> nombre := Some ''Otra'' \<rparr>)))
       = 1"
    by (simp_all add: constructor_clase_def prepararConfiguracion_clase_def ops_rechaza_def
        conf_ejemplo_def conf_un_intento_def o_num_def o_str_def)
  then show ?thesis
    by (simp add: ops_rechaza_clase ops_rechaza_un_intento_clase todosFallaron_def)
qed

subsection \<open>Logs\<close>

lemma msgError_nombre: "Nom n \<in> set (msgError n)"
  by (simp add: msgError_def)

text \<open>
  C7. For every run of the class and of the factory function: a silent run writes no
  warning; a run that is not silent writes one warning for each failed attempt, the
  \<open>j\<close>-th holding the number \<open>j\<close> (counted from 1) and no other number; and when every
  invocation of the run failed (the terminal failure), exactly one error log is written,
  holding the name of the task, silent or not.
\<close>

theorem avisos_y_error_final:
  assumes "iniciar_clase this k = (p, k', tr)"
    and "configuracion ops = Some c" and "iniciar_async ops j = (q, j', tr')"
  shows "avisos tr = (if silencio (c_config this) then []
                      else map (\<lambda>n. [n]) [1..<Suc (fallos tr)])
          \<and> (fallos tr = llamadas tr
                \<longrightarrow> erroresLog tr = [(msgError (c_nombre this), todosFallaron)]
                    \<and> Nom (c_nombre this) \<in> set (msgError (c_nombre this)))
          \<and> avisos tr' = (if o_bool (modoSilencioso c) False then []
                          else map (\<lambda>n. [n]) [1..<Suc (fallos tr')])
          \<and> (fallos tr' = llamadas tr'
                \<longrightarrow> erroresLog tr' = [(msgError (nombre_async ops), todosFallaron)]
                    \<and> Nom (nombre_async ops) \<in> set (msgError (nombre_async ops)))"
proof -
  obtain p0 k0 tr0 where r: "intentar (c_ejecutar this) (c_config this) 0 k = (p0, k0, tr0)"
    by (cases "intentar (c_ejecutar this) (c_config this) 0 k") auto
  note g = intentar_general [OF r]
  from assms(1) r
  have "\<exists>xs. tr = tr0 @ xs \<and> avisos xs = [] \<and> fallos xs = 0 \<and> llamadas xs = 0
          \<and> (case p0 of Rechazada x \<Rightarrow> erroresLog xs = [(msgError (c_nombre this), x)]
              | Resuelta v \<Rightarrow> True)"
    by (auto simp: iniciar_clase_def ejecutarConResiliencia_clase_def
        split: promesa.splits option.splits)
  then obtain xs where xs: "tr = tr0 @ xs" "avisos xs = []" "fallos xs = 0" "llamadas xs = 0"
    "case p0 of Rechazada x \<Rightarrow> erroresLog xs = [(msgError (c_nombre this), x)] | Resuelta v \<Rightarrow> True"
    by blast
  have c1: "avisos tr = (if silencio (c_config this) then []
                         else map (\<lambda>n. [n]) [1..<Suc (fallos tr)])"
    using g xs by (simp add: lecturas_append)
  have c2: "fallos tr = llamadas tr
              \<longrightarrow> erroresLog tr = [(msgError (c_nombre this), todosFallaron)]
                  \<and> Nom (c_nombre this) \<in> set (msgError (c_nombre this))"
    using g xs by (cases p0) (simp_all add: lecturas_append msgError_nombre)
  let ?config = "prepararConfiguracion_async c"
  obtain p1 k1 tr1 where r': "mientras (ejecutar ops) ?config 0 j = (p1, k1, tr1)"
    by (cases "mientras (ejecutar ops) ?config 0 j") auto
  note g' = mientras_general [OF r']
  have sil: "a_silencio ?config = o_bool (modoSilencioso c) False"
    by (simp add: prepararConfiguracion_async_def)
  from assms(2,3) r'
  have "\<exists>ys. tr' = tr1 @ ys \<and> avisos ys = [] \<and> fallos ys = 0 \<and> llamadas ys = 0
          \<and> (case p1 of Rechazada x \<Rightarrow> ys = [logError x (nombre ops)] | Resuelta v \<Rightarrow> True)"
    by (auto simp: iniciar_async_def ejecutarConResiliencia_async_def logError_def
        split: promesa.splits option.splits)
  then obtain ys where ys: "tr' = tr1 @ ys" "avisos ys = []" "fallos ys = 0" "llamadas ys = 0"
    "case p1 of Rechazada x \<Rightarrow> ys = [logError x (nombre ops)] | Resuelta v \<Rightarrow> True"
    by blast
  have c3: "avisos tr' = (if o_bool (modoSilencioso c) False then []
                          else map (\<lambda>n. [n]) [1..<Suc (fallos tr')])"
    using g' ys sil by (simp add: lecturas_append)
  have c4: "fallos tr' = llamadas tr'
              \<longrightarrow> erroresLog tr' = [(msgError (nombre_async ops), todosFallaron)]
                  \<and> Nom (nombre_async ops) \<in> set (msgError (nombre_async ops))"
    using g' ys
    by (cases p1) (auto simp: lecturas_append msgError_nombre logError_def nombre_async_def)
  from c1 c2 c3 c4 show ?thesis by blast
qed

lemma ops_rechaza_silencio_async:
  "iniciar_async (ops_rechaza conf_silencio) 0 =
     (Resuelta (), 2,
      [Ejecutar (Rechazada 0), Esperar 1000, Ejecutar (Rechazada 1), Esperar 1000,
       ConsoleError (msgError ''Cargar'') todosFallaron])"
  by (simp add: iniciar_async_def ejecutarConResiliencia_async_def mientras.simps
      prepararConfiguracion_async_def ops_rechaza_def conf_silencio_def
      o_num_def o_bool_def aviso_async_def logError_def)

theorem avisos_y_error_final_witness:
  "silencio (c_config (constructor_clase (ops_rechaza conf_ejemplo))) = False
   \<and> avisos (snd (snd (iniciar_clase (constructor_clase (ops_rechaza conf_ejemplo)) 0)))
       = [[1], [2], [3]]
   \<and> erroresLog (snd (snd (iniciar_clase (constructor_clase (ops_rechaza conf_ejemplo)) 0)))
       = [(msgError ''Cargar'', todosFallaron)]
   \<and> o_bool (modoSilencioso conf_silencio) False = True
   \<and> avisos (snd (snd (iniciar_async (ops_rechaza conf_silencio) 0))) = []
   \<and> erroresLog (snd (snd (iniciar_async (ops_rechaza conf_silencio) 0)))
       = [(msgError ''Cargar'', todosFallaron)]"
proof -
  have h: "configuracion (ops_rechaza conf_silencio) = Some conf_silencio"
    by (simp add: ops_rechaza_def)
  have s: "silencio (c_config (constructor_clase (ops_rechaza conf_ejemplo))) = False"
    "o_bool (modoSilencioso conf_silencio) False = True"
    "c_nombre (constructor_clase (ops_rechaza conf_ejemplo)) = ''Cargar''"
    "nombre_async (ops_rechaza conf_silencio) = ''Cargar''"
    by (simp_all add: constructor_clase_def prepararConfiguracion_clase_def ops_rechaza_def
        conf_ejemplo_def conf_silencio_def o_bool_def o_str_def nombre_async_def)
  have u: "[Suc 0..<4] = [Suc 0, 2, 3]"
    by code_simp
  from avisos_y_error_final [OF ops_rechaza_clase h ops_rechaza_silencio_async] s
  show ?thesis
    by (simp add: ops_rechaza_clase ops_rechaza_silencio_async u)
qed

subsection \<open>Normalising the configuration\<close>

text \<open>
  C5, as amended. The empty configuration is normalised to 3 attempts, 1000 ms, not silent,
  and in every field a value left out or falsy (0, \<^verbatim>\<open>false\<close>) is replaced by the default.
  The number of attempts is therefore never 0; it is at least 1 exactly when the value given
  was left out or not negative, a negative value being truthy and kept. The factory function
  normalises the number of attempts and the silence in the same way, keeps the delay as it
  was given, and applies the default of 1000 where the delay is used.
\<close>

theorem prepararConfiguracion_por_defecto:
  "prepararConfiguracion_clase conf_vacia = \<lparr> maxIntentos = 3, demora = 1000, silencio = False \<rparr>
   \<and> maxIntentos (prepararConfiguracion_clase (conf\<lparr> reintentos := None \<rparr>)) = 3
   \<and> maxIntentos (prepararConfiguracion_clase (conf\<lparr> reintentos := Some 0 \<rparr>)) = 3
   \<and> demora (prepararConfiguracion_clase (conf\<lparr> demoraEntreIntentos := None \<rparr>)) = 1000
   \<and> demora (prepararConfiguracion_clase (conf\<lparr> demoraEntreIntentos := Some 0 \<rparr>)) = 1000
   \<and> silencio (prepararConfiguracion_clase (conf\<lparr> modoSilencioso := None \<rparr>)) = False
   \<and> silencio (prepararConfiguracion_clase (conf\<lparr> modoSilencioso := Some False \<rparr>)) = False
   \<and> maxIntentos (prepararConfiguracion_clase conf) \<noteq> 0
   \<and> (1 \<le> maxIntentos (prepararConfiguracion_clase conf))
       = (case reintentos conf of None \<Rightarrow> True | Some n \<Rightarrow> 0 \<le> n)
   \<and> a_maxIntentos (prepararConfiguracion_async conf) = maxIntentos (prepararConfiguracion_clase conf)
   \<and> a_silencio (prepararConfiguracion_async conf) = silencio (prepararConfiguracion_clase conf)
   \<and> demoraEntreIntentos (prepararConfiguracion_async conf) = demoraEntreIntentos conf
   \<and> o_num (demoraEntreIntentos (prepararConfiguracion_async conf)) 1000
       = demora (prepararConfiguracion_clase conf)"
  by (auto simp: prepararConfiguracion_clase_def prepararConfiguracion_async_def conf_vacia_def
      o_num_def o_bool_def split: option.splits)

theorem prepararConfiguracion_negativo_counterexample:
  "maxIntentos (prepararConfiguracion_clase (conf_vacia\<lparr> reintentos := Some (- 1) \<rparr>)) = - 1
   \<and> \<not> 1 \<le> maxIntentos (prepararConfiguracion_clase (conf_vacia\<lparr> reintentos := Some (- 1) \<rparr>))
   \<and> a_maxIntentos (prepararConfiguracion_async (conf_vacia\<lparr> reintentos := Some (- 1) \<rparr>)) = - 1
   \<and> demoraEntreIntentos (prepararConfiguracion_async conf_vacia) = None"
  by (simp add: prepararConfiguracion_clase_def prepararConfiguracion_async_def conf_vacia_def
      o_num_def)

end
